theory Spec2Isabelle
  imports Main "HOL-Library.AList" "HOL-Library.Char_ord" "HOL-Library.List_Lexorder"
begin

section \<open>JavaScript values\<close>

text \<open>
  The plugin (\<^verbatim>\<open>src/index.js\<close>) works on values that come out of \<^verbatim>\<open>JSON.parse\<close>, out of the
  command line and out of the service's YAML configuration, and it reads and writes their
  properties without checking their types. The values are therefore modelled untyped:
  \<open>undefined\<close>, \<open>null\<close>, booleans, numbers, strings, arrays and plain objects.

  \<^item> A number is an integer here. The plugin never computes with a number; it only tests
    one for truthiness and converts one to a string.
  \<^item> An object is the list of its own properties in the order the runtime enumerates them;
    a lookup finds the first entry of a name.
  \<^item> Properties that a value inherits from the runtime's prototypes (\<^verbatim>\<open>toString\<close>,
    \<^verbatim>\<open>constructor\<close>, the array methods, ...) are not part of the value. None of the names
    the plugin reads literally is inherited, apart from the array methods \<^verbatim>\<open>filter\<close>,
    \<^verbatim>\<open>forEach\<close>, \<^verbatim>\<open>sort\<close> and \<^verbatim>\<open>reverse\<close>, which are modelled where they are called.
    One read uses a configured name, \<^verbatim>\<open>templateData.Parameters[key]\<close>: for a rule named like
    an inherited property the runtime finds the inherited value and logs nothing, where
    the model finds no parameter and logs the rule; the document is the same in both.
  \<^item> The file is in strict mode (\<^verbatim>\<open>'use strict'\<close>, and a class body always is): assigning
    a property of a primitive raises a TypeError.
\<close>

datatype jsval =
    JUndefined
  | JNull
  | JBool bool
  | JNum int
  | JStr string
  | JArr "jsval list"
  | JObj "(string \<times> jsval) list"

datatype js_error = TypeError | Error string

type_synonym 'a result = "js_error + 'a"

definition and_then :: "'a result \<Rightarrow> ('a \<Rightarrow> 'b result) \<Rightarrow> 'b result" where
  "and_then r f = (case r of Inl e \<Rightarrow> Inl e | Inr x \<Rightarrow> f x)"

subsection \<open>Conversion to a string and to a boolean\<close>

definition digit :: "nat \<Rightarrow> char" where
  "digit d = ''0123456789'' ! d"

fun show_nat :: "nat \<Rightarrow> string" where
  "show_nat n = (if n < 10 then [digit n] else show_nat (n div 10) @ [digit (n mod 10)])"

declare show_nat.simps [simp del]

definition show_int :: "int \<Rightarrow> string" where
  "show_int i = (if i < 0 then CHR ''-'' # show_nat (nat (- i)) else show_nat (nat i))"

fun join_comma :: "string list \<Rightarrow> string" where
  "join_comma [] = []"
| "join_comma [s] = s"
| "join_comma (s # t # ss) = s @ CHR '','' # join_comma (t # ss)"

text \<open>
  \<open>to_string\<close> is the conversion a template literal and string concatenation apply
  (\<^verbatim>\<open>`${v}`\<close>, \<^verbatim>\<open>'a' + v\<close>) and the one \<^verbatim>\<open>Array.prototype.sort\<close> compares by: a plain
  object becomes \<^verbatim>\<open>[object Object]\<close>, an array the comma-separated strings of its elements
  with \<open>null\<close> and \<open>undefined\<close> left empty. Two cases of the runtime are not modelled: an
  integer of magnitude \<open>10^21\<close> or more, which the runtime prints with an exponent, and an
  object with a \<^verbatim>\<open>toString\<close> property of its own, on which the conversion raises.
\<close>

fun to_string :: "jsval \<Rightarrow> string" where
  "to_string JUndefined = ''undefined''"
| "to_string JNull = ''null''"
| "to_string (JBool b) = (if b then ''true'' else ''false'')"
| "to_string (JNum i) = show_int i"
| "to_string (JStr s) = s"
| "to_string (JArr xs) =
     join_comma (map (\<lambda>x. if x = JUndefined \<or> x = JNull then [] else to_string x) xs)"
| "to_string (JObj kvs) = ''[object Object]''"

fun truthy :: "jsval \<Rightarrow> bool" where
  "truthy JUndefined = False"
| "truthy JNull = False"
| "truthy (JBool b) = b"
| "truthy (JNum i) = (i \<noteq> 0)"
| "truthy (JStr s) = (s \<noteq> [])"
| "truthy (JArr xs) = True"
| "truthy (JObj kvs) = True"

fun is_object :: "jsval \<Rightarrow> bool" where
  "is_object (JObj kvs) = True"
| "is_object v = False"

text \<open>\<^verbatim>\<open>a || b\<close>: the first operand when it is truthy, else the second.\<close>

definition js_or :: "jsval \<Rightarrow> jsval \<Rightarrow> jsval" where
  "js_or a b = (if truthy a then a else b)"

subsection \<open>Properties\<close>

text \<open>
  An array owns its indices, written in decimal, and \<^verbatim>\<open>length\<close>; so does a string, whose
  elements are its one-character strings.
\<close>

definition array_index :: "string \<Rightarrow> nat \<Rightarrow> nat option" where
  "array_index k n = find (\<lambda>i. show_nat i = k) [0..<n]"

definition indexed :: "jsval list \<Rightarrow> string \<Rightarrow> jsval option" where
  "indexed xs k =
     (case array_index k (length xs) of
        Some i \<Rightarrow> Some (xs ! i)
      | None \<Rightarrow> if k = ''length'' then Some (JNum (int (length xs))) else None)"

fun own :: "jsval \<Rightarrow> string \<Rightarrow> jsval option" where
  "own (JObj kvs) k = map_of kvs k"
| "own (JArr xs) k = indexed xs k"
| "own (JStr s) k = indexed (map (\<lambda>c. JStr [c]) s) k"
| "own v k = None"

text \<open>
  \<^verbatim>\<open>v.k\<close> and \<^verbatim>\<open>v[k]\<close>: a TypeError on \<open>undefined\<close> and \<open>null\<close>, \<open>undefined\<close> for a property
  the value does not have.
\<close>

definition get_prop :: "jsval \<Rightarrow> string \<Rightarrow> jsval result" where
  "get_prop v k =
     (if v = JUndefined \<or> v = JNull then Inl TypeError
      else Inr (case own v k of Some x \<Rightarrow> x | None \<Rightarrow> JUndefined))"

text \<open>
  \<^verbatim>\<open>delete v.k\<close>, giving the receiver as the operation leaves it. The plugin deletes the
  names \<^verbatim>\<open>ServerlessDeploymentBucket\<close> and \<^verbatim>\<open>Default\<close> only, which an array or a primitive
  never owns: there the operation changes nothing.
\<close>

definition delete_prop :: "jsval \<Rightarrow> string \<Rightarrow> jsval result" where
  "delete_prop v k =
     (case v of
        JUndefined \<Rightarrow> Inl TypeError
      | JNull \<Rightarrow> Inl TypeError
      | JObj kvs \<Rightarrow> Inr (JObj (AList.delete k kvs))
      | _ \<Rightarrow> Inr v)"

text \<open>
  \<^verbatim>\<open>v.k = x\<close>, giving the receiver as the assignment leaves it. An object's property is
  overwritten in place or added last. The plugin assigns the names \<^verbatim>\<open>Default\<close>,
  \<^verbatim>\<open>S3Bucket\<close> and \<^verbatim>\<open>S3Key\<close> only; on an array such a name is a property beside the
  elements, which no code of the plugin reads and \<^verbatim>\<open>JSON.stringify\<close> does not write, so the
  array value is unchanged. On a primitive the assignment raises (strict mode).
\<close>

definition set_prop :: "jsval \<Rightarrow> string \<Rightarrow> jsval \<Rightarrow> jsval result" where
  "set_prop v k x =
     (case v of
        JObj kvs \<Rightarrow> Inr (JObj (AList.update k x kvs))
      | JArr xs \<Rightarrow> Inr (JArr xs)
      | _ \<Rightarrow> Inl TypeError)"

text \<open>
  The plugin mutates objects it reached through a parent (\<^verbatim>\<open>parameter = doc.Parameters[key]\<close>,
  then \<^verbatim>\<open>delete parameter.Default\<close>). A parsed document is a tree, so the mutation is
  visible through the one path that led to the object: \<open>store v k x\<close> is the parent \<open>v\<close>
  once its property \<open>k\<close>, which it owns, has become \<open>x\<close>.
\<close>

definition store :: "jsval \<Rightarrow> string \<Rightarrow> jsval \<Rightarrow> jsval" where
  "store v k x =
     (case v of
        JObj kvs \<Rightarrow> JObj (AList.map_entry k (\<lambda>_. x) kvs)
      | JArr xs \<Rightarrow>
          (case array_index k (length xs) of Some i \<Rightarrow> JArr (xs[i := x]) | None \<Rightarrow> JArr xs)
      | _ \<Rightarrow> v)"

text \<open>
  The own enumerable properties of a value, in enumeration order: what \<^verbatim>\<open>for (k in v)\<close>
  visits and what \<^verbatim>\<open>{...v}\<close> copies. \<^verbatim>\<open>length\<close> is not enumerable.
\<close>

fun own_entries :: "jsval \<Rightarrow> (string \<times> jsval) list" where
  "own_entries (JObj kvs) = kvs"
| "own_entries (JArr xs) = zip (map show_nat [0..<length xs]) xs"
| "own_entries (JStr s) = zip (map show_nat [0..<length s]) (map (\<lambda>c. JStr [c]) s)"
| "own_entries v = []"

definition for_in_keys :: "jsval \<Rightarrow> string list" where
  "for_in_keys v = map fst (own_entries v)"

text \<open>
  \<^verbatim>\<open>{...base, ...v}\<close> on an object \<open>base\<close>: each copied property overwrites or is added last.
  (The runtime enumerates a property whose name is an integer before the others; the
  result here has it in the place where it was added. Lookups do not depend on the order.)
\<close>

definition spread :: "(string \<times> jsval) list \<Rightarrow> jsval \<Rightarrow> (string \<times> jsval) list" where
  "spread base v = foldl (\<lambda>acc (k, x). AList.update k x acc) base (own_entries v)"

section \<open>The plugin\<close>

text \<open>
  What the plugin reads from its host: the command-line options, the service name, the
  stage, the \<^verbatim>\<open>custom\<close> section, and \<^verbatim>\<open>path.join\<close> of the runtime, which is taken as a
  parameter on strings and raises a TypeError on an argument that is not a string.
\<close>

record host =
  options :: jsval
  service :: jsval
  stage :: jsval
  custom :: jsval
  join :: "string list \<Rightarrow> string"

text \<open>
  The fields of \<^verbatim>\<open>this\<close> that the hooks assign and read. A field no statement has assigned
  reads as \<open>undefined\<close>; no statement of the class assigns \<^verbatim>\<open>this.templateKey\<close>.
\<close>

record plugin =
  deploymentBucket :: jsval
  deploymentBucketPath :: jsval
  latestVersion :: jsval
  sourceKey :: jsval
  shareConfig :: jsval
  destBucket :: jsval
  destCodeKey :: jsval
  destTemplateKey :: jsval
  stackName :: jsval
  templateKey :: jsval

definition constructed :: plugin where
  "constructed =
     \<lparr> deploymentBucket = JUndefined, deploymentBucketPath = JUndefined,
       latestVersion = JUndefined, sourceKey = JUndefined, shareConfig = JUndefined,
       destBucket = JUndefined, destCodeKey = JUndefined, destTemplateKey = JUndefined,
       stackName = JUndefined, templateKey = JUndefined \<rparr>"

fun the_string :: "jsval \<Rightarrow> string option" where
  "the_string (JStr s) = Some s"
| "the_string v = None"

definition path_join :: "host \<Rightarrow> jsval list \<Rightarrow> jsval result" where
  "path_join h args =
     (if list_all (\<lambda>a. the_string a \<noteq> None) args
      then Inr (JStr (join h (map to_string args)))
      else Inl TypeError)"

subsection \<open>getLatestVersion\<close>

text \<open>
  \<^verbatim>\<open>
  const latestVersion = response.CommonPrefixes.sort().reverse()[0]
  if (latestVersion === undefined) { throw new Error('Version not found') }
  return latestVersion.Prefix
  \<close>
  \<open>listing\<close> is what the \<^verbatim>\<open>listObjectsV2\<close> request resolves to, or the error it rejects
  with. \<^verbatim>\<open>sort()\<close> is called without a comparison function: it moves \<open>undefined\<close>
  elements to the end and orders the others by their conversion to a string, keeping the
  order of elements whose strings are equal (the sort is stable).
\<close>

definition js_sort :: "jsval list \<Rightarrow> jsval list" where
  "js_sort xs = sort_key to_string (filter (\<lambda>x. x \<noteq> JUndefined) xs) @ filter (\<lambda>x. x = JUndefined) xs"

definition first_element :: "jsval list \<Rightarrow> jsval" where
  "first_element xs = (case xs of [] \<Rightarrow> JUndefined | x # _ \<Rightarrow> x)"

definition getLatestVersion :: "jsval result \<Rightarrow> jsval result" where
  "getLatestVersion listing =
     and_then listing (\<lambda>response.
     and_then (get_prop response ''CommonPrefixes'') (\<lambda>prefixes.
       case prefixes of
         JArr xs \<Rightarrow>
           (let latest = first_element (rev (js_sort xs))
            in if latest = JUndefined then Inl (Error ''Version not found'')
               else get_prop latest ''Prefix'')
       | _ \<Rightarrow> Inl TypeError))"

subsection \<open>init\<close>

text \<open>
  \<^verbatim>\<open>
  this.shareConfig = { bucket: undefined, codeKey: this.sourceKey, templateKey: 'template.json',
    stackName: this.serverless.service.service, parameters: {},
    ...this.serverless.service.custom.share }
  this.destBucket = this.options.bucket || this.shareConfig.bucket
  this.destCodeKey = this.options.key || this.shareConfig.key
  this.destTemplateKey = this.options.key || this.shareConfig.key
  this.stackName = this.options.stackName || this.shareConfig.stackName
  \<close>
  \<open>bucket_name\<close> is what \<^verbatim>\<open>getServerlessDeploymentBucketName\<close> resolves to and \<open>listing\<close> what the
  \<^verbatim>\<open>listObjectsV2\<close> request resolves to (or the error either rejects with). The result is the
  plugin's fields and the lines logged, or the error that ended the hook.
\<close>

definition share_defaults :: "host \<Rightarrow> jsval \<Rightarrow> (string \<times> jsval) list" where
  "share_defaults h source =
     [(''bucket'', JUndefined), (''codeKey'', source), (''templateKey'', JStr ''template.json''),
      (''stackName'', service h), (''parameters'', JObj [])]"

definition init :: "host \<Rightarrow> jsval result \<Rightarrow> jsval result \<Rightarrow> (plugin \<times> string list) result" where
  "init h bucket_name listing =
     and_then bucket_name (\<lambda>bucket.
     and_then (path_join h [JStr ''serverless'', service h, stage h, JStr ''/'']) (\<lambda>bucket_path.
     and_then (getLatestVersion listing) (\<lambda>latest.
     and_then (path_join h [latest, JStr (to_string (service h) @ ''.zip'')]) (\<lambda>source.
     and_then (get_prop (custom h) ''share'') (\<lambda>share.
     let config = JObj (spread (share_defaults h source) share) in
     and_then (get_prop (options h) ''bucket'') (\<lambda>opt_bucket.
     and_then (get_prop config ''bucket'') (\<lambda>cfg_bucket.
     and_then (get_prop (options h) ''key'') (\<lambda>opt_code_key.
     and_then (get_prop config ''key'') (\<lambda>cfg_code_key.
     and_then (get_prop (options h) ''key'') (\<lambda>opt_template_key.
     and_then (get_prop config ''key'') (\<lambda>cfg_template_key.
     and_then (get_prop (options h) ''stackName'') (\<lambda>opt_stack.
     and_then (get_prop config ''stackName'') (\<lambda>cfg_stack.
       Inr (\<lparr> deploymentBucket = bucket, deploymentBucketPath = bucket_path,
              latestVersion = latest, sourceKey = source, shareConfig = config,
              destBucket = js_or opt_bucket cfg_bucket,
              destCodeKey = js_or opt_code_key cfg_code_key,
              destTemplateKey = js_or opt_template_key cfg_template_key,
              stackName = js_or opt_stack cfg_stack,
              templateKey = JUndefined \<rparr>,
            [''Deploying version '' @ to_string latest @ ''..'']))))))))))))))"

subsection \<open>The requests that publish the template and the code archive\<close>

text \<open>
  \<^verbatim>\<open>saveTemplate\<close> and \<^verbatim>\<open>uploadCode\<close> each send one request to the object storage; the
  functions give the request's parameters. The template's body is the document that
  \<^verbatim>\<open>JSON.stringify\<close> serialises, the archive's a stream of the local file.
\<close>

datatype body = Json jsval | FileStream string

record s3_request =
  operation :: string
  Bucket :: jsval
  Key :: jsval
  ACL :: string
  ContentType :: string
  Body :: body

definition saveTemplate :: "plugin \<Rightarrow> jsval \<Rightarrow> s3_request" where
  "saveTemplate p templateData =
     \<lparr> operation = ''putObject'', Bucket = destBucket p, Key = destTemplateKey p,
       ACL = ''public-read'', ContentType = ''application/json'', Body = Json templateData \<rparr>"

definition uploadCode :: "plugin \<Rightarrow> string \<Rightarrow> s3_request" where
  "uploadCode p srcPath =
     \<lparr> operation = ''upload'', Bucket = destBucket p, Key = destCodeKey p,
       ACL = ''public-read'', ContentType = ''application/zip'', Body = FileStream srcPath \<rparr>"

subsection \<open>end\<close>

text \<open>
  \<^verbatim>\<open>
  this.serverless.cli.log(`Version ${this.latestVersion} deployed!`)
  const shareLink = 'https://console.aws.amazon.com/cloudformation/home#/stacks/new?' +
                    `stackName=${this.stackName}` +
                    'templateURL=https://' + await this.getDestinationBucketRegion() +
                    `.amazonaws.com/${this.destBucket}/${this.templateKey}`
  this.serverless.cli.log(`Share link: ${shareLink}`)
  \<close>
  \<open>location\<close> is what the \<^verbatim>\<open>getBucketLocation\<close> request resolves to or rejects with;
  \<^verbatim>\<open>getDestinationBucketRegion\<close> returns its \<^verbatim>\<open>LocationConstraint\<close>. The result is the error
  that ended the hook, if any, and the lines logged. (\<open>end\<close> is a keyword of the theory
  language; the hook is \<open>end_hook\<close> here.)
\<close>

definition getDestinationBucketRegion :: "jsval result \<Rightarrow> jsval result" where
  "getDestinationBucketRegion location =
     and_then location (\<lambda>response. get_prop response ''LocationConstraint'')"

definition shareLink :: "plugin \<Rightarrow> jsval \<Rightarrow> string" where
  "shareLink p region =
     ''https://console.aws.amazon.com/cloudformation/home#/stacks/new?'' @
     ''stackName='' @ to_string (stackName p) @
     ''templateURL=https://'' @ to_string region @
     ''.amazonaws.com/'' @ to_string (destBucket p) @ ''/'' @ to_string (templateKey p)"

definition end_hook :: "plugin \<Rightarrow> jsval result \<Rightarrow> js_error option \<times> string list" where
  "end_hook p location =
     (let deployed = ''Version '' @ to_string (latestVersion p) @ '' deployed!''
      in case getDestinationBucketRegion location of
           Inl e \<Rightarrow> (Some e, [deployed])
         | Inr region \<Rightarrow> (None, [deployed, ''Share link: '' @ shareLink p region]))"

subsection \<open>code\<close>

text \<open>
  \<^verbatim>\<open>
  const tmpPath = '/tmp/code.zip';
  await this.downloadCode(tmpPath)
  await this.uploadCode(tmpPath)
  fs.unlinkSync(tmpPath)
  \<close>
  The local files are a map from paths to contents. \<open>download\<close> is what the \<^verbatim>\<open>getObject\<close>
  request resolves to (the archive's bytes) or rejects with, \<open>upload\<close> the error the
  \<^verbatim>\<open>upload\<close> request of \<^verbatim>\<open>uploadCode\<close> rejects with, if any. Writing the file is taken to
  succeed; \<^verbatim>\<open>fs.unlinkSync\<close> raises on a path that does not exist. The result is the error
  that ended the hook, if any, and the files it leaves.
\<close>

type_synonym files = "string \<rightharpoonup> string"

definition downloadCode :: "string result \<Rightarrow> string \<Rightarrow> files \<Rightarrow> js_error option \<times> files" where
  "downloadCode download destPath fs =
     (case download of
        Inl e \<Rightarrow> (Some e, fs)
      | Inr bytes \<Rightarrow> (None, fs(destPath \<mapsto> bytes)))"

definition unlinkSync :: "string \<Rightarrow> files \<Rightarrow> js_error option \<times> files" where
  "unlinkSync path fs =
     (if fs path = None then (Some (Error ''ENOENT''), fs) else (None, fs(path := None)))"

definition tmpPath :: string where
  "tmpPath = ''/tmp/code.zip''"

definition code :: "string result \<Rightarrow> js_error option \<Rightarrow> files \<Rightarrow> js_error option \<times> files" where
  "code download upload fs =
     (case downloadCode download tmpPath fs of
        (Some e, fs1) \<Rightarrow> (Some e, fs1)
      | (None, fs1) \<Rightarrow>
          (case upload of
             Some e \<Rightarrow> (Some e, fs1)
           | None \<Rightarrow> unlinkSync tmpPath fs1))"

subsection \<open>elaborateTemplate\<close>

text \<open>
  \<^verbatim>\<open>elaborateTemplate\<close> mutates the parsed template in place and returns it. Each step below
  gives the error it raised, if any, and the document as the step leaves it, so that what
  an error leaves behind is part of the model.

  Line 181: \<^verbatim>\<open>delete templateData.Resources.ServerlessDeploymentBucket\<close>.
\<close>

definition remove_deployment_bucket :: "jsval \<Rightarrow> js_error option \<times> jsval" where
  "remove_deployment_bucket templateData =
     (case get_prop templateData ''Resources'' of
        Inl e \<Rightarrow> (Some e, templateData)
      | Inr resources \<Rightarrow>
          (case delete_prop resources ''ServerlessDeploymentBucket'' of
             Inl e \<Rightarrow> (Some e, templateData)
           | Inr resources' \<Rightarrow> (None, store templateData ''Resources'' resources')))"

text \<open>
  Lines 183 to 195, one round of the loop:
  \<^verbatim>\<open>
  const parameter = templateData.Parameters[key]
  if (parameter === undefined) {
    this.serverless.cli.log(`Rule ${key} cannot be applied, parameters not found`)
    continue
  }
  const rule = this.shareConfig.parameters[key]
  if (rule === 'required') { delete parameter.Default }
  else if (rule === 'optional') { parameter.Default = '' }
  \<close>
  The result holds the lines the round logged as well.
\<close>

definition apply_rule :: "jsval \<Rightarrow> string \<Rightarrow> jsval \<Rightarrow> js_error option \<times> jsval \<times> string list" where
  "apply_rule rules key templateData =
     (case get_prop templateData ''Parameters'' of
        Inl e \<Rightarrow> (Some e, templateData, [])
      | Inr parameters \<Rightarrow>
     (case get_prop parameters key of
        Inl e \<Rightarrow> (Some e, templateData, [])
      | Inr parameter \<Rightarrow>
          if parameter = JUndefined
          then (None, templateData, [''Rule '' @ key @ '' cannot be applied, parameters not found''])
          else
     (case get_prop rules key of
        Inl e \<Rightarrow> (Some e, templateData, [])
      | Inr rule \<Rightarrow>
          if rule = JStr ''required'' then
            (case delete_prop parameter ''Default'' of
               Inl e \<Rightarrow> (Some e, templateData, [])
             | Inr parameter' \<Rightarrow>
                 (None, store templateData ''Parameters'' (store parameters key parameter'), []))
          else if rule = JStr ''optional'' then
            (case set_prop parameter ''Default'' (JStr []) of
               Inl e \<Rightarrow> (Some e, templateData, [])
             | Inr parameter' \<Rightarrow>
                 (None, store templateData ''Parameters'' (store parameters key parameter'), []))
          else (None, templateData, []))))"

text \<open>\<^verbatim>\<open>for (const key in this.shareConfig.parameters)\<close>: the rounds in order, up to the first error.\<close>

fun apply_rules :: "jsval \<Rightarrow> string list \<Rightarrow> jsval \<Rightarrow> js_error option \<times> jsval \<times> string list" where
  "apply_rules rules [] templateData = (None, templateData, [])"
| "apply_rules rules (key # keys) templateData =
     (case apply_rule rules key templateData of
        (Some e, d, lg) \<Rightarrow> (Some e, d, lg)
      | (None, d, lg) \<Rightarrow>
          (case apply_rules rules keys d of (r, d', lg') \<Rightarrow> (r, d', lg @ lg')))"

text \<open>
  Lines 197 to 209:
  \<^verbatim>\<open>
  templateData.Resources
    .filter(resource => resource.Type === 'AWS::Lambda::Function')
    .forEach(resource => {
      if (resource.Properties && resource.Properties.Code &&
          resource.Properties.S3Bucket &&
          resource.Properties.S3Bucket.Ref === 'ServerlessDeploymentBucket') {
        resource.Properties.S3Bucket = this.destBucket
        resource.Properties.S3Key = this.destCodeKey
      }
    })
  \<close>
  \<^verbatim>\<open>filter\<close> and \<^verbatim>\<open>forEach\<close> are methods of arrays. On any other value of
  \<^verbatim>\<open>templateData.Resources\<close> the call raises a TypeError: \<^verbatim>\<open>filter\<close> is \<open>undefined\<close> there,
  or a value of the document, which is no function. \<^verbatim>\<open>filter\<close> runs its callback on every
  element before \<^verbatim>\<open>forEach\<close> starts; \<open>filter_functions\<close> gives, element by element, whether
  the callback keeps it.
\<close>

fun filter_functions :: "jsval list \<Rightarrow> bool list result" where
  "filter_functions [] = Inr []"
| "filter_functions (resource # resources) =
     and_then (get_prop resource ''Type'') (\<lambda>type.
     and_then (filter_functions resources) (\<lambda>kept.
       Inr ((type = JStr ''AWS::Lambda::Function'') # kept)))"

definition points_at_deployment_bucket :: "jsval \<Rightarrow> bool result" where
  "points_at_deployment_bucket resource =
     and_then (get_prop resource ''Properties'') (\<lambda>properties.
       if \<not> truthy properties then Inr False else
     and_then (get_prop properties ''Code'') (\<lambda>code.
       if \<not> truthy code then Inr False else
     and_then (get_prop properties ''S3Bucket'') (\<lambda>bucket.
       if \<not> truthy bucket then Inr False else
     and_then (get_prop bucket ''Ref'') (\<lambda>ref.
       Inr (ref = JStr ''ServerlessDeploymentBucket'')))))"

definition rewrite_code_location :: "plugin \<Rightarrow> jsval \<Rightarrow> js_error option \<times> jsval" where
  "rewrite_code_location p resource =
     (case points_at_deployment_bucket resource of
        Inl e \<Rightarrow> (Some e, resource)
      | Inr matches \<Rightarrow>
          if \<not> matches then (None, resource)
          else
     (case get_prop resource ''Properties'' of
        Inl e \<Rightarrow> (Some e, resource)
      | Inr properties \<Rightarrow>
     (case set_prop properties ''S3Bucket'' (destBucket p) of
        Inl e \<Rightarrow> (Some e, resource)
      | Inr properties1 \<Rightarrow>
     (case set_prop properties1 ''S3Key'' (destCodeKey p) of
        Inl e \<Rightarrow> (Some e, store resource ''Properties'' properties1)
      | Inr properties2 \<Rightarrow> (None, store resource ''Properties'' properties2)))))"

fun forEach_rewrite :: "plugin \<Rightarrow> (bool \<times> jsval) list \<Rightarrow> js_error option \<times> jsval list" where
  "forEach_rewrite p [] = (None, [])"
| "forEach_rewrite p ((kept, resource) # rest) =
     (if kept then
        (case rewrite_code_location p resource of
           (Some e, resource') \<Rightarrow> (Some e, resource' # map snd rest)
         | (None, resource') \<Rightarrow>
             (case forEach_rewrite p rest of (r, rest') \<Rightarrow> (r, resource' # rest')))
      else (case forEach_rewrite p rest of (r, rest') \<Rightarrow> (r, resource # rest')))"

definition rewrite_functions :: "plugin \<Rightarrow> jsval \<Rightarrow> js_error option \<times> jsval" where
  "rewrite_functions p templateData =
     (case get_prop templateData ''Resources'' of
        Inl e \<Rightarrow> (Some e, templateData)
      | Inr resources \<Rightarrow>
          (case resources of
             JArr rs \<Rightarrow>
               (case filter_functions rs of
                  Inl e \<Rightarrow> (Some e, templateData)
                | Inr kept \<Rightarrow>
                    (case forEach_rewrite p (zip kept rs) of
                       (r, rs') \<Rightarrow> (r, store templateData ''Resources'' (JArr rs'))))
           | _ \<Rightarrow> (Some TypeError, templateData)))"

text \<open>
  The whole function: the error it raised, if any, the document as it leaves it, and the
  lines it logged. When it raises nothing it returns the document.
\<close>

record elaboration =
  raised :: "js_error option"
  document :: jsval
  logged :: "string list"

definition elaborateTemplate :: "plugin \<Rightarrow> jsval \<Rightarrow> elaboration" where
  "elaborateTemplate p templateData =
     (case remove_deployment_bucket templateData of
        (Some e, d1) \<Rightarrow> \<lparr> raised = Some e, document = d1, logged = [] \<rparr>
      | (None, d1) \<Rightarrow>
     (case get_prop (shareConfig p) ''parameters'' of
        Inl e \<Rightarrow> \<lparr> raised = Some e, document = d1, logged = [] \<rparr>
      | Inr rules \<Rightarrow>
     (case apply_rules rules (for_in_keys rules) d1 of
        (Some e, d2, lg) \<Rightarrow> \<lparr> raised = Some e, document = d2, logged = lg \<rparr>
      | (None, d2, lg) \<Rightarrow>
     (case rewrite_functions p d2 of
        (r, d3) \<Rightarrow> \<lparr> raised = r, document = d3, logged = lg \<rparr>))))"

subsection \<open>template\<close>

text \<open>
  \<^verbatim>\<open>
  let templateData = await this.getCurrentTemplate()
  templateData = this.elaborateTemplate(templateData)
  await this.saveTemplate(templateData)
  \<close>
  \<open>current\<close> is the parsed template \<^verbatim>\<open>getCurrentTemplate\<close> resolves to, or the error it rejects
  with. The result is the error that ended the hook, if any, the requests sent to publish
  the template, and the lines logged.
\<close>

definition template :: "plugin \<Rightarrow> jsval result \<Rightarrow> js_error option \<times> s3_request list \<times> string list" where
  "template p current =
     (case current of
        Inl e \<Rightarrow> (Some e, [], [])
      | Inr templateData \<Rightarrow>
          (let r = elaborateTemplate p templateData
           in case raised r of
                Some e \<Rightarrow> (Some e, [], logged r)
              | None \<Rightarrow> (None, [saveTemplate p (document r)], logged r)))"

subsection \<open>Documents that are already elaborated\<close>

text \<open>
  The three conditions under which a document counts as elaborated for a plugin \<open>p\<close>:
  \<^item> \<open>bucket_entry_absent\<close>: its \<^verbatim>\<open>Resources\<close> has no entry \<^verbatim>\<open>ServerlessDeploymentBucket\<close>;
  \<^item> \<open>rules_applied\<close>: for every rule whose parameter is an object of the document, the
    object has no \<^verbatim>\<open>Default\<close> when the rule is \<^verbatim>\<open>required\<close> and the \<^verbatim>\<open>Default\<close> \<^verbatim>\<open>''\<close>
    when it is \<^verbatim>\<open>optional\<close>;
  \<^item> \<open>functions_rewritten\<close>: every function resource of a \<^verbatim>\<open>Resources\<close> array that still
    passes the test of lines 200 to 205 has the destination bucket as its \<^verbatim>\<open>S3Bucket\<close> and
    the destination code key as its \<^verbatim>\<open>S3Key\<close>.
\<close>

definition bucket_entry_absent :: "jsval \<Rightarrow> bool" where
  "bucket_entry_absent templateData =
     (case get_prop templateData ''Resources'' of
        Inl e \<Rightarrow> True
      | Inr resources \<Rightarrow> own resources ''ServerlessDeploymentBucket'' = None)"

definition rule_applied :: "jsval \<Rightarrow> jsval \<Rightarrow> string \<Rightarrow> bool" where
  "rule_applied rules templateData key =
     (case get_prop templateData ''Parameters'' of
        Inl e \<Rightarrow> True
      | Inr parameters \<Rightarrow>
     (case get_prop parameters key of
        Inl e \<Rightarrow> True
      | Inr parameter \<Rightarrow>
     (case parameter of
        JObj kvs \<Rightarrow>
          (case get_prop rules key of
             Inl e \<Rightarrow> True
           | Inr rule \<Rightarrow>
               if rule = JStr ''required'' then map_of kvs ''Default'' = None
               else if rule = JStr ''optional'' then map_of kvs ''Default'' = Some (JStr [])
               else True)
      | _ \<Rightarrow> True)))"

definition rules_applied :: "plugin \<Rightarrow> jsval \<Rightarrow> bool" where
  "rules_applied p templateData =
     (case get_prop (shareConfig p) ''parameters'' of
        Inl e \<Rightarrow> True
      | Inr rules \<Rightarrow> list_all (rule_applied rules templateData) (for_in_keys rules))"

definition code_location_rewritten :: "plugin \<Rightarrow> jsval \<Rightarrow> bool" where
  "code_location_rewritten p resource =
     (case points_at_deployment_bucket resource of
        Inl e \<Rightarrow> True
      | Inr matches \<Rightarrow>
          if \<not> matches then True
          else (case get_prop resource ''Properties'' of
                  Inl e \<Rightarrow> False
                | Inr properties \<Rightarrow>
                    own properties ''S3Bucket'' = Some (destBucket p)
                    \<and> own properties ''S3Key'' = Some (destCodeKey p)))"

definition functions_rewritten :: "plugin \<Rightarrow> jsval \<Rightarrow> bool" where
  "functions_rewritten p templateData =
     (case get_prop templateData ''Resources'' of
        Inl e \<Rightarrow> True
      | Inr resources \<Rightarrow>
          (case resources of
             JArr rs \<Rightarrow>
               (case filter_functions rs of
                  Inl e \<Rightarrow> True
                | Inr kept \<Rightarrow>
                    list_all (\<lambda>(keep, resource). \<not> keep \<or> code_location_rewritten p resource)
                      (zip kept rs))
           | _ \<Rightarrow> True))"

definition already_elaborated :: "plugin \<Rightarrow> jsval \<Rightarrow> bool" where
  "already_elaborated p templateData \<longleftrightarrow>
     bucket_entry_absent templateData \<and> rules_applied p templateData
     \<and> functions_rewritten p templateData"

subsection \<open>Example inputs\<close>

text \<open>
  A plugin that shares to the bucket \<^verbatim>\<open>pub\<close> under the code key \<^verbatim>\<open>v1/code.zip\<close> with the given
  parameter rules, and a function resource whose code is in the deployment bucket.
\<close>

definition sharing :: "(string \<times> jsval) list \<Rightarrow> plugin" where
  "sharing rules =
     constructed \<lparr> shareConfig := JObj [(''parameters'', JObj rules)],
                   destBucket := JStr ''pub'', destCodeKey := JStr ''v1/code.zip'' \<rparr>"

definition function_resource :: jsval where
  "function_resource =
     JObj [(''Type'', JStr ''AWS::Lambda::Function''),
           (''Properties'',
            JObj [(''Code'', JObj []),
                  (''S3Bucket'', JObj [(''Ref'', JStr ''ServerlessDeploymentBucket'')])])]"

definition rewritten_function_resource :: jsval where
  "rewritten_function_resource =
     JObj [(''Type'', JStr ''AWS::Lambda::Function''),
           (''Properties'',
            JObj [(''Code'', JObj []), (''S3Bucket'', JStr ''pub''),
                  (''S3Key'', JStr ''v1/code.zip'')])]"

section \<open>Properties of init, getLatestVersion, end and code\<close>

subsection \<open>Helper facts\<close>

lemma and_then_Inr [simp]: "and_then (Inr x) f = f x"
  by (simp add: and_then_def)

lemma and_then_Inl [simp]: "and_then (Inl e) f = Inl e"
  by (simp add: and_then_def)

lemma and_then_eq_Inr:
  "and_then r f = Inr y \<longleftrightarrow> (\<exists>x. r = Inr x \<and> f x = Inr y)"
  by (cases r) simp_all

lemma init_templateKey_undefined:
  assumes "init h bucket_name listing = Inr (p, lg)"
  shows "templateKey p = JUndefined"
  using assms unfolding init_def Let_def and_then_eq_Inr by auto

text \<open>
  What \<^verbatim>\<open>sort()\<close> does to a listing of objects: every element converts to the same string,
  so the listing keeps its order, and \<^verbatim>\<open>reverse()[0]\<close> is its last element.
\<close>

lemma to_string_object: "is_object x \<Longrightarrow> to_string x = ''[object Object]''"
  by (cases x) simp_all

lemma js_sort_objects:
  assumes "list_all is_object xs"
  shows "js_sort xs = xs"
proof -
  have defined: "filter (\<lambda>x. x \<noteq> JUndefined) xs = xs" "filter (\<lambda>x. x = JUndefined) xs = []"
    using assms by (induction xs) auto
  have "map to_string xs = map (\<lambda>x. ''[object Object]'') xs"
    using assms by (induction xs) (simp_all add: to_string_object)
  then have "sorted (map to_string xs)"
    by (simp add: sorted_wrt_iff_nth_less)
  then have "sort_key to_string xs = xs"
    by (rule sort_key_id_if_sorted)
  with defined show ?thesis
    by (simp add: js_sort_def)
qed

lemma getLatestVersion_objects:
  assumes "list_all is_object xs" and "xs \<noteq> []"
  shows "getLatestVersion (Inr (JObj [(''CommonPrefixes'', JArr xs)])) = get_prop (last xs) ''Prefix''"
proof -
  have "first_element (rev xs) = last xs"
    using assms(2) by (cases xs rule: rev_cases) (simp_all add: first_element_def)
  moreover have "is_object (last xs)"
    using assms by (simp add: list_all_iff)
  then have "last xs \<noteq> JUndefined"
    by auto
  ultimately show ?thesis
    using assms(1) by (simp add: getLatestVersion_def get_prop_def js_sort_objects)
qed

lemma getLatestVersion_empty:
  "getLatestVersion (Inr (JObj [(''CommonPrefixes'', JArr [])])) = Inl (Error ''Version not found'')"
  by (simp add: getLatestVersion_def get_prop_def js_sort_def first_element_def)

subsection \<open>Command flags and configuration defaults\<close>

text \<open>
  Claim C5 says that each of the four flags the command declares (\<^verbatim>\<open>bucket\<close>, \<^verbatim>\<open>codeKey\<close>,
  \<^verbatim>\<open>templateKey\<close>, \<^verbatim>\<open>stack\<close>) overrides its configuration default. \<^verbatim>\<open>init\<close> reads
  \<^verbatim>\<open>options.bucket\<close>, \<^verbatim>\<open>options.key\<close> (twice) and \<^verbatim>\<open>options.stackName\<close>, and of the
  configuration \<^verbatim>\<open>bucket\<close>, \<^verbatim>\<open>key\<close> (twice) and \<^verbatim>\<open>stackName\<close>. Run with the flags
  \<^verbatim>\<open>--codeKey my/code.zip --templateKey my/template.json --stack my-stack\<close> and the
  configuration \<^verbatim>\<open>share: {bucket: pub}\<close>, whatever \<^verbatim>\<open>path.join\<close> computes, it leaves both
  destination keys \<open>undefined\<close> and takes the service's name for the stack.
\<close>

theorem init_ignores_declared_flags:
  "map_sum id (\<lambda>(p, lg). (destBucket p, destCodeKey p, destTemplateKey p, stackName p))
     (init \<lparr> options = JObj [(''codeKey'', JStr ''my/code.zip''),
                             (''templateKey'', JStr ''my/template.json''),
                             (''stack'', JStr ''my-stack'')],
             service = JStr ''svc'', stage = JStr ''dev'',
             custom = JObj [(''share'', JObj [(''bucket'', JStr ''pub'')])], join = j \<rparr>
        (Inr (JStr ''deploy''))
        (Inr (JObj [(''CommonPrefixes'', JArr [JObj [(''Prefix'', JStr ''serverless/svc/dev/1/'')]])])))
   = Inr (JStr ''pub'', JUndefined, JUndefined, JStr ''svc'')"
  by (simp add: init_def getLatestVersion_def get_prop_def js_sort_def first_element_def
      path_join_def spread_def share_defaults_def js_or_def)

subsection \<open>The latest version\<close>

text \<open>
  Claim C6 says that \<^verbatim>\<open>getLatestVersion\<close> returns the lexicographically greatest common
  prefix of every non-empty listing and raises \<^verbatim>\<open>Version not found\<close> on an empty one. The
  elements of \<^verbatim>\<open>CommonPrefixes\<close> are objects \<^verbatim>\<open>{Prefix: ...}\<close>, which \<^verbatim>\<open>sort()\<close> cannot tell
  apart (\<open>js_sort_objects\<close>): the function returns the prefix the listing gives last
  (\<open>getLatestVersion_objects\<close>). On a listing that gives version 2 before version 1 it
  returns version 1.
\<close>

theorem getLatestVersion_returns_last_listed:
  "getLatestVersion
     (Inr (JObj [(''CommonPrefixes'',
                  JArr [JObj [(''Prefix'', JStr ''serverless/svc/dev/2/'')],
                        JObj [(''Prefix'', JStr ''serverless/svc/dev/1/'')]])]))
   = Inr (JStr ''serverless/svc/dev/1/'')"
  by (simp add: getLatestVersion_def get_prop_def js_sort_def first_element_def)

subsection \<open>The share link\<close>

text \<open>
  Claim C7 says that \<^verbatim>\<open>end\<close> prints the link
  \<^verbatim>\<open>...stacks/new?stackName=<stack>&templateURL=https://<region>.amazonaws.com/<bucket>/<templateKey>\<close>
  with the destination template key. The code joins the two query parameters without
  \<^verbatim>\<open>&\<close> and reads \<^verbatim>\<open>this.templateKey\<close>, which \<^verbatim>\<open>init\<close> leaves \<open>undefined\<close>
  (\<open>init_templateKey_undefined\<close>; the destination template key is \<^verbatim>\<open>this.destTemplateKey\<close>).
  After \<^verbatim>\<open>init\<close> with the options \<^verbatim>\<open>bucket: my-bucket\<close>, \<^verbatim>\<open>key: my/template.json\<close>,
  \<^verbatim>\<open>stackName: example\<close> and a bucket in \<^verbatim>\<open>eu-west-1\<close>, it prints the link below.
\<close>

theorem end_prints_link_without_separator_and_key:
  "map_sum id (\<lambda>(p, lg). (destTemplateKey p, end_hook p (Inr (JObj [(''LocationConstraint'', JStr ''eu-west-1'')]))))
     (init \<lparr> options = JObj [(''bucket'', JStr ''my-bucket''), (''key'', JStr ''my/template.json''),
                             (''stackName'', JStr ''example'')],
             service = JStr ''svc'', stage = JStr ''dev'',
             custom = JObj [], join = j \<rparr>
        (Inr (JStr ''deploy''))
        (Inr (JObj [(''CommonPrefixes'', JArr [JObj [(''Prefix'', JStr ''v1/'')]])])))
   = Inr (JStr ''my/template.json'',
          None,
          [''Version v1/ deployed!'',
           ''Share link: https://console.aws.amazon.com/cloudformation/home#/stacks/new?stackName=exampletemplateURL=https://eu-west-1.amazonaws.com/my-bucket/undefined''])"
  by (simp add: init_def getLatestVersion_def get_prop_def js_sort_def first_element_def
      path_join_def spread_def share_defaults_def js_or_def end_hook_def shareLink_def
      getDestinationBucketRegion_def)

subsection \<open>The temporary file\<close>

text \<open>
  Claim C9 says that the temporary file is removed once the re-upload completes and on
  every failure path too. The hook removes it in its last statement only; nothing catches
  an error. When the upload raises, the archive just downloaded stays on disk.
\<close>

theorem code_upload_failure_leaves_file:
  "code (Inr ''archive'') (Some (Error ''AccessDenied'')) Map.empty
   = (Some (Error ''AccessDenied''), [''/tmp/code.zip'' \<mapsto> ''archive''])"
  by (simp add: code_def downloadCode_def tmpPath_def)

text \<open>
  Claim C9 as amended: the temporary file is removed once the re-upload completes. When
  the upload raises, the hook ends with that error and the downloaded archive stays at
  \<^verbatim>\<open>/tmp/code.zip\<close>; when the download raises, the hook ends with that error and leaves the
  files as they were.
\<close>

theorem code_removes_file_on_success_only:
  "code (Inr bytes) None fs = (None, fs(tmpPath := None))
   \<and> code (Inr bytes) (Some e) fs = (Some e, fs(tmpPath \<mapsto> bytes))
   \<and> code (Inl e) upload fs = (Some e, fs)"
  by (simp add: code_def downloadCode_def unlinkSync_def)

subsection \<open>One destination key\<close>

text \<open>
  Claim C10: whenever \<^verbatim>\<open>init\<close> completes, the destination code key and the destination
  template key are equal, both being \<^verbatim>\<open>options.key || shareConfig.key\<close>; so the request that
  publishes the template and the one that publishes the code archive name the same bucket
  and the same key.
\<close>

theorem init_destination_keys_equal:
  assumes "init h bucket_name listing = Inr (p, lg)"
  shows "destCodeKey p = destTemplateKey p
       \<and> Key (saveTemplate p templateData) = Key (uploadCode p srcPath)
       \<and> Bucket (saveTemplate p templateData) = Bucket (uploadCode p srcPath)"
proof -
  from assms obtain k where "destCodeKey p = k" "destTemplateKey p = k"
    unfolding init_def Let_def and_then_eq_Inr by auto
  then show ?thesis
    by (simp add: saveTemplate_def uploadCode_def)
qed

text \<open>
  The witness runs \<^verbatim>\<open>init\<close> with the option \<^verbatim>\<open>key: shared/key\<close> (string concatenation
  standing for \<^verbatim>\<open>path.join\<close>): both destination keys are \<^verbatim>\<open>shared/key\<close>.
\<close>

theorem init_destination_keys_equal_witness:
  "init \<lparr> options = JObj [(''key'', JStr ''shared/key'')], service = JStr ''svc'',
          stage = JStr ''dev'', custom = JObj [(''share'', JObj [(''bucket'', JStr ''pub'')])],
          join = concat \<rparr>
     (Inr (JStr ''deploy''))
     (Inr (JObj [(''CommonPrefixes'', JArr [JObj [(''Prefix'', JStr ''v1/'')]])]))
   = Inr (\<lparr> deploymentBucket = JStr ''deploy'', deploymentBucketPath = JStr ''serverlesssvcdev/'',
            latestVersion = JStr ''v1/'', sourceKey = JStr ''v1/svc.zip'',
            shareConfig = JObj [(''bucket'', JStr ''pub''), (''codeKey'', JStr ''v1/svc.zip''),
                                (''templateKey'', JStr ''template.json''),
                                (''stackName'', JStr ''svc''), (''parameters'', JObj [])],
            destBucket = JStr ''pub'', destCodeKey = JStr ''shared/key'',
            destTemplateKey = JStr ''shared/key'', stackName = JStr ''svc'',
            templateKey = JUndefined \<rparr>,
          [''Deploying version v1/..''])
   \<and> Key (saveTemplate
           \<lparr> deploymentBucket = JStr ''deploy'', deploymentBucketPath = JStr ''serverlesssvcdev/'',
             latestVersion = JStr ''v1/'', sourceKey = JStr ''v1/svc.zip'',
             shareConfig = JObj [(''bucket'', JStr ''pub''), (''codeKey'', JStr ''v1/svc.zip''),
                                 (''templateKey'', JStr ''template.json''),
                                 (''stackName'', JStr ''svc''), (''parameters'', JObj [])],
             destBucket = JStr ''pub'', destCodeKey = JStr ''shared/key'',
             destTemplateKey = JStr ''shared/key'', stackName = JStr ''svc'',
             templateKey = JUndefined \<rparr> (JObj []))
     = JStr ''shared/key''"
proof -
  have run: "init \<lparr> options = JObj [(''key'', JStr ''shared/key'')], service = JStr ''svc'',
          stage = JStr ''dev'', custom = JObj [(''share'', JObj [(''bucket'', JStr ''pub'')])],
          join = concat \<rparr>
     (Inr (JStr ''deploy''))
     (Inr (JObj [(''CommonPrefixes'', JArr [JObj [(''Prefix'', JStr ''v1/'')]])]))
   = Inr (\<lparr> deploymentBucket = JStr ''deploy'', deploymentBucketPath = JStr ''serverlesssvcdev/'',
            latestVersion = JStr ''v1/'', sourceKey = JStr ''v1/svc.zip'',
            shareConfig = JObj [(''bucket'', JStr ''pub''), (''codeKey'', JStr ''v1/svc.zip''),
                                (''templateKey'', JStr ''template.json''),
                                (''stackName'', JStr ''svc''), (''parameters'', JObj [])],
            destBucket = JStr ''pub'', destCodeKey = JStr ''shared/key'',
            destTemplateKey = JStr ''shared/key'', stackName = JStr ''svc'',
            templateKey = JUndefined \<rparr>,
          [''Deploying version v1/..''])"
    by (simp add: init_def getLatestVersion_def get_prop_def js_sort_def first_element_def
        path_join_def spread_def share_defaults_def js_or_def)
  from init_destination_keys_equal [OF run, of "JObj []" "''/tmp/code.zip''"] run
  show ?thesis
    by (simp add: uploadCode_def)
qed

section \<open>Properties of elaborateTemplate\<close>

subsection \<open>Property operations\<close>

lemma get_prop_error: "get_prop v k = Inl e \<Longrightarrow> e = TypeError"
  by (auto simp: get_prop_def split: if_splits)

lemma delete_prop_error: "delete_prop v k = Inl e \<Longrightarrow> e = TypeError"
  by (auto simp: delete_prop_def split: jsval.splits)

lemma set_prop_error: "set_prop v k x = Inl e \<Longrightarrow> e = TypeError"
  by (auto simp: set_prop_def split: jsval.splits)

lemma get_prop_object:
  "get_prop (JObj kvs) k = Inr (case map_of kvs k of Some x \<Rightarrow> x | None \<Rightarrow> JUndefined)"
  by (simp add: get_prop_def)

lemma map_entry_same:
  "map_of kvs k = Some x \<Longrightarrow> AList.map_entry k (\<lambda>_. x) kvs = kvs"
  by (induction kvs) (auto split: if_splits)

lemma array_index_less: "array_index k n = Some i \<Longrightarrow> i < n"
  by (auto simp: array_index_def find_Some_iff)

lemma store_own: "own v k = Some x \<Longrightarrow> store v k x = v"
proof (cases v)
  case (JObj kvs)
  then show "own v k = Some x \<Longrightarrow> store v k x = v"
    by (simp add: store_def map_entry_same)
next
  case (JArr xs)
  then show "own v k = Some x \<Longrightarrow> store v k x = v"
    by (auto simp: store_def indexed_def dest: array_index_less split: option.splits if_splits)
qed (simp_all add: store_def)

lemma store_get_prop:
  assumes "get_prop v k = Inr x" and "x \<noteq> JUndefined"
  shows "store v k x = v"
proof -
  from assms have "own v k = Some x"
    by (auto simp: get_prop_def split: if_splits option.splits)
  then show ?thesis
    by (rule store_own)
qed

lemma get_prop_receiver: "get_prop v k = Inr x \<Longrightarrow> v \<noteq> JUndefined \<and> v \<noteq> JNull"
  by (auto simp: get_prop_def split: if_splits)

lemma store_object_other:
  "k' \<noteq> k \<Longrightarrow> \<exists>kvs'. store (JObj kvs) k x = JObj kvs' \<and> map_of kvs' k' = map_of kvs k'"
  by (simp add: store_def AList.map_of_map_entry)

lemma apply_rule_object:
  assumes "apply_rule rules key (JObj kvs) = (r, d, lg)"
  shows "(r = None \<or> r = Some TypeError)
       \<and> (\<exists>kvs'. d = JObj kvs' \<and> map_of kvs' ''Resources'' = map_of kvs ''Resources'')"
  using assms
  by (auto simp: apply_rule_def store_def AList.map_of_map_entry
      dest: get_prop_error delete_prop_error set_prop_error split: sum.splits if_splits)

lemma apply_rules_object:
  assumes "apply_rules rules keys (JObj kvs) = (r, d, lg)"
  shows "(r = None \<or> r = Some TypeError)
       \<and> (\<exists>kvs'. d = JObj kvs' \<and> map_of kvs' ''Resources'' = map_of kvs ''Resources'')"
  using assms
proof (induction keys arbitrary: kvs r d lg)
  case Nil
  then show ?case by auto
next
  case (Cons key keys)
  obtain r1 d1 lg1 where step: "apply_rule rules key (JObj kvs) = (r1, d1, lg1)"
    by (cases "apply_rule rules key (JObj kvs)") auto
  from apply_rule_object [OF step] obtain kvs1 where
    r1: "r1 = None \<or> r1 = Some TypeError" and d1: "d1 = JObj kvs1"
    and res1: "map_of kvs1 ''Resources'' = map_of kvs ''Resources''"
    by auto
  show ?case
  proof (cases r1)
    case None
    obtain r2 d2 lg2 where rest: "apply_rules rules keys (JObj kvs1) = (r2, d2, lg2)"
      by (cases "apply_rules rules keys (JObj kvs1)") auto
    with Cons.prems step None d1 have "r = r2" "d = d2"
      by simp_all
    with Cons.IH [OF rest] res1 show ?thesis
      by auto
  next
    case (Some e)
    with Cons.prems step have "r = r1" "d = d1"
      by simp_all
    with r1 d1 res1 show ?thesis
      by auto
  qed
qed

lemma remove_deployment_bucket_mapping:
  assumes "map_of kvs ''Resources'' = Some (JObj resources)"
  shows "\<exists>kvs'. remove_deployment_bucket (JObj kvs) = (None, JObj kvs')
           \<and> map_of kvs' ''Resources'' = Some (JObj (AList.delete ''ServerlessDeploymentBucket'' resources))"
  using assms
  by (simp add: remove_deployment_bucket_def get_prop_object delete_prop_def store_def
      AList.map_of_map_entry)

lemma rewrite_functions_mapping:
  assumes "map_of kvs ''Resources'' = Some (JObj resources)"
  shows "rewrite_functions p (JObj kvs) = (Some TypeError, JObj kvs)"
  using assms by (simp add: rewrite_functions_def get_prop_object)

lemma elaborateTemplate_mapping:
  assumes "map_of kvs ''Resources'' = Some (JObj resources)"
  shows "raised (elaborateTemplate p (JObj kvs)) = Some TypeError
       \<and> (\<exists>kvs'. document (elaborateTemplate p (JObj kvs)) = JObj kvs'
            \<and> map_of kvs' ''Resources'' = Some (JObj (AList.delete ''ServerlessDeploymentBucket'' resources)))"
proof -
  from remove_deployment_bucket_mapping [OF assms] obtain kvs1 where
    removed: "remove_deployment_bucket (JObj kvs) = (None, JObj kvs1)"
    and res1: "map_of kvs1 ''Resources'' = Some (JObj (AList.delete ''ServerlessDeploymentBucket'' resources))"
    by auto
  show ?thesis
  proof (cases "get_prop (shareConfig p) ''parameters''")
    case (Inl e)
    with removed res1 show ?thesis
      by (auto simp: elaborateTemplate_def dest: get_prop_error)
  next
    case (Inr rules)
    obtain r d lg where loop: "apply_rules rules (for_in_keys rules) (JObj kvs1) = (r, d, lg)"
      by (cases "apply_rules rules (for_in_keys rules) (JObj kvs1)") auto
    from apply_rules_object [OF loop] res1 obtain kvs2 where
      r: "r = None \<or> r = Some TypeError" and d: "d = JObj kvs2"
      and res2: "map_of kvs2 ''Resources'' = Some (JObj (AList.delete ''ServerlessDeploymentBucket'' resources))"
      by auto
    from r show ?thesis
    proof
      assume "r = None"
      with removed Inr loop d res2 rewrite_functions_mapping [OF res2, of p] show ?thesis
        by (simp add: elaborateTemplate_def)
    next
      assume "r = Some TypeError"
      with removed Inr loop d res2 show ?thesis
        by (simp add: elaborateTemplate_def)
    qed
  qed
qed

subsection \<open>One round of the rule loop\<close>

text \<open>
  On a template whose \<^verbatim>\<open>Parameters\<close> is a mapping: a rule without a parameter is logged and
  changes nothing; a \<^verbatim>\<open>required\<close> rule removes the \<^verbatim>\<open>Default\<close> of its parameter object and an
  \<^verbatim>\<open>optional\<close> one sets it to \<^verbatim>\<open>''\<close>, all else staying as it was. On a template without a
  \<^verbatim>\<open>Parameters\<close> section the round raises.
\<close>

lemma apply_rule_absent:
  assumes "map_of kvs ''Parameters'' = Some (JObj parameters)"
    and "map_of parameters key = None"
  shows "apply_rule rules key (JObj kvs)
         = (None, JObj kvs, [''Rule '' @ key @ '' cannot be applied, parameters not found''])"
  using assms by (simp add: apply_rule_def get_prop_object)

lemma apply_rule_required:
  assumes "map_of kvs ''Parameters'' = Some (JObj parameters)"
    and "map_of parameters key = Some (JObj parameter)"
    and "get_prop rules key = Inr (JStr ''required'')"
  shows "\<exists>kvs' parameters' parameter'.
           apply_rule rules key (JObj kvs) = (None, JObj kvs', [])
         \<and> map_of kvs' ''Parameters'' = Some (JObj parameters')
         \<and> map_of parameters' key = Some (JObj parameter')
         \<and> map_of parameter' ''Default'' = None
         \<and> (\<forall>name. name \<noteq> ''Default'' \<longrightarrow> map_of parameter' name = map_of parameter name)
         \<and> (\<forall>name. name \<noteq> key \<longrightarrow> map_of parameters' name = map_of parameters name)
         \<and> (\<forall>name. name \<noteq> ''Parameters'' \<longrightarrow> map_of kvs' name = map_of kvs name)"
  using assms
  by (simp add: apply_rule_def get_prop_object delete_prop_def store_def
      AList.map_of_map_entry AList.delete_conv')

lemma apply_rule_optional:
  assumes "map_of kvs ''Parameters'' = Some (JObj parameters)"
    and "map_of parameters key = Some (JObj parameter)"
    and "get_prop rules key = Inr (JStr ''optional'')"
  shows "\<exists>kvs' parameters' parameter'.
           apply_rule rules key (JObj kvs) = (None, JObj kvs', [])
         \<and> map_of kvs' ''Parameters'' = Some (JObj parameters')
         \<and> map_of parameters' key = Some (JObj parameter')
         \<and> map_of parameter' ''Default'' = Some (JStr [])
         \<and> (\<forall>name. name \<noteq> ''Default'' \<longrightarrow> map_of parameter' name = map_of parameter name)
         \<and> (\<forall>name. name \<noteq> key \<longrightarrow> map_of parameters' name = map_of parameters name)
         \<and> (\<forall>name. name \<noteq> ''Parameters'' \<longrightarrow> map_of kvs' name = map_of kvs name)"
  using assms
  by (simp add: apply_rule_def get_prop_object set_prop_def store_def
      AList.map_of_map_entry AList.update_conv')

lemma apply_rule_no_parameters_section:
  assumes "map_of kvs ''Parameters'' = None"
  shows "apply_rule rules key (JObj kvs) = (Some TypeError, JObj kvs, [])"
  using assms by (simp add: apply_rule_def get_prop_object get_prop_def)

subsection \<open>One rewriting of a code location\<close>

text \<open>
  The decimal form of an index has digits only, so a name with another character is no
  index: a value that owns such a name (other than \<^verbatim>\<open>length\<close>) is an object.
\<close>

lemma show_nat_digits: "set (show_nat n) \<subseteq> set ''0123456789''"
proof (induction n rule: show_nat.induct)
  case (1 n)
  have digit: "digit d \<in> set ''0123456789''" if "d < 10" for d
    unfolding digit_def using that by (intro nth_mem) simp
  show ?case
  proof (cases "n < 10")
    case True
    with digit [of n] show ?thesis
      by (subst show_nat.simps) simp
  next
    case False
    with "1.IH" digit [of "n mod 10"] show ?thesis
      by (subst show_nat.simps) simp
  qed
qed

lemma array_index_name:
  assumes "c \<in> set k" and "c \<notin> set ''0123456789''"
  shows "array_index k n = None"
proof -
  have "show_nat i \<noteq> k" for i
    using assms show_nat_digits [of i] by blast
  then show ?thesis
    by (simp add: array_index_def find_None_iff)
qed

lemma indexed_name:
  assumes "c \<in> set k" and "c \<notin> set ''0123456789''" and "k \<noteq> ''length''"
  shows "indexed xs k = None"
  using assms by (simp add: indexed_def array_index_name)

lemma own_name_object:
  assumes "own v k = Some x" and "c \<in> set k" and "c \<notin> set ''0123456789''" and "k \<noteq> ''length''"
  shows "\<exists>kvs. v = JObj kvs \<and> map_of kvs k = Some x"
  using assms by (cases v) (simp_all add: indexed_name)

lemma truthy_property:
  assumes "get_prop v k = Inr x" and "truthy x"
  shows "own v k = Some x"
  using assms by (auto simp: get_prop_def split: if_splits option.splits)

lemma rewrite_code_location_matching:
  assumes "points_at_deployment_bucket resource = Inr True"
  shows "\<exists>kvs kvs' properties properties'.
           resource = JObj kvs
         \<and> rewrite_code_location p resource = (None, JObj kvs')
         \<and> map_of kvs ''Properties'' = Some (JObj properties)
         \<and> map_of kvs' ''Properties'' = Some (JObj properties')
         \<and> map_of properties' ''S3Bucket'' = Some (destBucket p)
         \<and> map_of properties' ''S3Key'' = Some (destCodeKey p)
         \<and> (\<forall>name. name \<noteq> ''S3Bucket'' \<and> name \<noteq> ''S3Key'' \<longrightarrow>
               map_of properties' name = map_of properties name)
         \<and> (\<forall>name. name \<noteq> ''Properties'' \<longrightarrow> map_of kvs' name = map_of kvs name)"
proof -
  from assms obtain properties code where
    props: "get_prop resource ''Properties'' = Inr properties" "truthy properties"
    and code: "get_prop properties ''Code'' = Inr code" "truthy code"
    by (auto simp: points_at_deployment_bucket_def and_then_eq_Inr split: if_splits)
  from truthy_property [OF props] obtain kvs where
    resource: "resource = JObj kvs" "map_of kvs ''Properties'' = Some properties"
    by (auto dest: own_name_object [where c = "CHR ''P''"])
  from truthy_property [OF code] obtain ps where
    properties: "properties = JObj ps"
    by (auto dest: own_name_object [where c = "CHR ''C''"])
  from assms props resource properties show ?thesis
    by (simp add: rewrite_code_location_def get_prop_object set_prop_def store_def
        AList.map_of_map_entry AList.update_conv')
qed

lemma rewrite_code_location_other:
  assumes "points_at_deployment_bucket resource = Inr False"
  shows "rewrite_code_location p resource = (None, resource)"
  using assms by (simp add: rewrite_code_location_def)

subsection \<open>A document that is already elaborated is left as it is\<close>

lemma delete_prop_absent:
  assumes "own v k = None" and "delete_prop v k = Inr v'"
  shows "v' = v"
proof (cases v)
  case (JObj kvs)
  with assms(1) have "k \<notin> fst ` set kvs"
    by (simp add: map_of_eq_None_iff)
  with assms(2) JObj show ?thesis
    by (simp add: delete_prop_def)
qed (use assms(2) in \<open>simp_all add: delete_prop_def\<close>)

lemma set_prop_same:
  assumes "own v k = Some x" and "set_prop v k x = Inr v'"
  shows "v' = v"
  using assms by (cases v) (auto simp: set_prop_def AList.update_triv)

lemma remove_deployment_bucket_absent:
  assumes "bucket_entry_absent templateData"
  shows "snd (remove_deployment_bucket templateData) = templateData"
proof (cases "get_prop templateData ''Resources''")
  case (Inl e)
  then show ?thesis
    by (simp add: remove_deployment_bucket_def)
next
  case (Inr resources)
  with assms have absent: "own resources ''ServerlessDeploymentBucket'' = None"
    by (simp add: bucket_entry_absent_def)
  show ?thesis
  proof (cases "delete_prop resources ''ServerlessDeploymentBucket''")
    case (Inl e)
    with Inr show ?thesis
      by (simp add: remove_deployment_bucket_def)
  next
    case deleted: (Inr resources')
    from delete_prop_absent [OF absent deleted] have same: "resources' = resources" .
    from deleted have "resources \<noteq> JUndefined"
      by (auto simp: delete_prop_def)
    with Inr have "store templateData ''Resources'' resources = templateData"
      by (simp add: store_get_prop)
    with Inr deleted same show ?thesis
      by (simp add: remove_deployment_bucket_def)
  qed
qed

lemma apply_rule_applied:
  assumes "rule_applied rules templateData key"
  shows "fst (snd (apply_rule rules key templateData)) = templateData"
proof (cases "get_prop templateData ''Parameters''")
  case (Inl e)
  then show ?thesis
    by (simp add: apply_rule_def)
next
  case params: (Inr parameters)
  show ?thesis
  proof (cases "get_prop parameters key")
    case (Inl e)
    with params show ?thesis
      by (simp add: apply_rule_def)
  next
    case param: (Inr parameter)
    show ?thesis
    proof (cases "parameter = JUndefined")
      case True
      with params param show ?thesis
        by (simp add: apply_rule_def)
    next
      case defined: False
      from param have "parameters \<noteq> JUndefined"
        by (simp add: get_prop_receiver)
      with params have kept_parent: "store templateData ''Parameters'' parameters = templateData"
        by (simp add: store_get_prop)
      from param defined have kept_parameter: "store parameters key parameter = parameters"
        by (simp add: store_get_prop)
      show ?thesis
      proof (cases "get_prop rules key")
        case (Inl e)
        with params param defined show ?thesis
          by (simp add: apply_rule_def)
      next
        case rule: (Inr rule)
        have deleted: "delete_prop parameter ''Default'' = Inr parameter' \<Longrightarrow> parameter' = parameter"
          if "rule = JStr ''required''" for parameter'
          using that assms params param rule
          by (cases parameter) (auto simp: rule_applied_def delete_prop_def map_of_eq_None_iff)
        have assigned: "set_prop parameter ''Default'' (JStr []) = Inr parameter' \<Longrightarrow> parameter' = parameter"
          if "rule = JStr ''optional''" for parameter'
          using that assms params param rule
          by (cases parameter) (auto simp: rule_applied_def set_prop_def AList.update_triv)
        from params param defined rule kept_parent kept_parameter deleted assigned show ?thesis
          by (auto simp: apply_rule_def split: sum.splits)
      qed
    qed
  qed
qed

lemma apply_rules_applied:
  assumes "list_all (rule_applied rules templateData) keys"
  shows "fst (snd (apply_rules rules keys templateData)) = templateData"
  using assms
proof (induction keys)
  case Nil
  then show ?case by simp
next
  case (Cons key keys)
  then have step: "fst (snd (apply_rule rules key templateData)) = templateData"
    and rest: "fst (snd (apply_rules rules keys templateData)) = templateData"
    by (simp_all add: apply_rule_applied)
  obtain r d lg where one: "apply_rule rules key templateData = (r, d, lg)"
    by (cases "apply_rule rules key templateData") auto
  with step have "d = templateData"
    by simp
  with one rest show ?case
    by (cases r) (auto split: prod.splits)
qed

lemma rewrite_code_location_rewritten:
  assumes "code_location_rewritten p resource"
  shows "snd (rewrite_code_location p resource) = resource"
proof (cases "points_at_deployment_bucket resource")
  case (Inl e)
  then show ?thesis
    by (simp add: rewrite_code_location_def)
next
  case (Inr matches)
  show ?thesis
  proof (cases matches)
    case False
    with Inr show ?thesis
      by (simp add: rewrite_code_location_def)
  next
    case True
    with Inr assms obtain properties where
      props: "get_prop resource ''Properties'' = Inr properties"
      and bucket: "own properties ''S3Bucket'' = Some (destBucket p)"
      and key: "own properties ''S3Key'' = Some (destCodeKey p)"
      by (auto simp: code_location_rewritten_def split: sum.splits)
    from bucket have "properties \<noteq> JUndefined"
      by auto
    with props have kept_parent: "store resource ''Properties'' properties = resource"
      by (simp add: store_get_prop)
    show ?thesis
    proof (cases "set_prop properties ''S3Bucket'' (destBucket p)")
      case (Inl e)
      with Inr True props show ?thesis
        by (simp add: rewrite_code_location_def)
    next
      case first: (Inr properties1)
      from set_prop_same [OF bucket first] have same1: "properties1 = properties" .
      show ?thesis
      proof (cases "set_prop properties ''S3Key'' (destCodeKey p)")
        case (Inl e)
        with Inr True props first same1 kept_parent show ?thesis
          by (simp add: rewrite_code_location_def)
      next
        case second: (Inr properties2)
        from set_prop_same [OF key second] have "properties2 = properties" .
        with Inr True props first same1 second kept_parent show ?thesis
          by (simp add: rewrite_code_location_def)
      qed
    qed
  qed
qed

lemma forEach_rewrite_rewritten:
  assumes "list_all (\<lambda>(keep, resource). \<not> keep \<or> code_location_rewritten p resource) zs"
  shows "snd (forEach_rewrite p zs) = map snd zs"
  using assms
proof (induction zs)
  case Nil
  then show ?case by simp
next
  case (Cons z zs)
  obtain keep resource where z: "z = (keep, resource)"
    by (cases z)
  from Cons have rest: "snd (forEach_rewrite p zs) = map snd zs"
    by simp
  show ?case
  proof (cases keep)
    case False
    with z rest show ?thesis
      by (cases "forEach_rewrite p zs") simp
  next
    case True
    with Cons.prems z have "snd (rewrite_code_location p resource) = resource"
      by (simp add: rewrite_code_location_rewritten)
    with True z rest show ?thesis
      by (cases "forEach_rewrite p zs"; cases "rewrite_code_location p resource")
        (auto split: option.splits)
  qed
qed

lemma filter_functions_length: "filter_functions rs = Inr kept \<Longrightarrow> length kept = length rs"
  by (induction rs arbitrary: kept) (auto simp: and_then_eq_Inr)

lemma rewrite_functions_rewritten:
  assumes "functions_rewritten p templateData"
  shows "snd (rewrite_functions p templateData) = templateData"
proof (cases "get_prop templateData ''Resources''")
  case (Inl e)
  then show ?thesis
    by (simp add: rewrite_functions_def)
next
  case (Inr resources)
  show ?thesis
  proof (cases "\<exists>rs. resources = JArr rs")
    case False
    with Inr show ?thesis
      by (cases resources) (simp_all add: rewrite_functions_def)
  next
    case True
    then obtain rs where array: "resources = JArr rs"
      by auto
    show ?thesis
    proof (cases "filter_functions rs")
      case (Inl e)
      with Inr array show ?thesis
        by (simp add: rewrite_functions_def)
    next
      case kept: (Inr kept)
      with assms Inr array have "snd (forEach_rewrite p (zip kept rs)) = map snd (zip kept rs)"
        by (simp add: functions_rewritten_def forEach_rewrite_rewritten)
      moreover from filter_functions_length [OF kept] have "map snd (zip kept rs) = rs"
        by simp
      moreover from Inr array have "store templateData ''Resources'' (JArr rs) = templateData"
        by (simp add: store_get_prop)
      ultimately show ?thesis
        using Inr array kept
        by (cases "forEach_rewrite p (zip kept rs)") (simp add: rewrite_functions_def)
    qed
  qed
qed

subsection \<open>The document a call returns is elaborated\<close>

text \<open>
  Each step establishes its condition and keeps the earlier ones: the removal leaves no
  entry for the deployment bucket, a completed rule loop leaves every rule applied, and a
  completed rewriting leaves every function resource rewritten.
\<close>

lemma array_index_key: "array_index k n = Some i \<Longrightarrow> show_nat i = k"
  by (auto simp: array_index_def find_Some_iff)

lemma get_prop_store_other:
  assumes "k' \<noteq> k"
  shows "get_prop (store v k x) k' = get_prop v k'"
proof (cases v)
  case (JObj kvs)
  with assms show ?thesis
    by (simp add: store_def get_prop_def AList.map_of_map_entry)
next
  case (JArr xs)
  show ?thesis
  proof (cases "array_index k (length xs)")
    case None
    with JArr show ?thesis
      by (simp add: store_def)
  next
    case (Some i)
    have "(xs[i := x]) ! j = xs ! j" if "array_index k' (length xs) = Some j" for j
    proof -
      from that Some assms have "j \<noteq> i"
        by (auto dest!: array_index_key)
      then show ?thesis
        by simp
    qed
    with JArr Some show ?thesis
      by (auto simp: store_def get_prop_def indexed_def split: option.splits)
  qed
qed (simp_all add: store_def)

lemma get_prop_store_same:
  assumes "own v k = Some y" and "get_prop (store v k x) k = Inr q" and "is_object q"
  shows "q = x"
proof (cases v)
  case (JObj kvs)
  with assms show ?thesis
    by (auto simp: store_def get_prop_def AList.map_of_map_entry)
next
  case (JArr xs)
  with assms show ?thesis
    by (auto simp: store_def get_prop_def indexed_def dest: array_index_less
        split: option.splits if_splits)
next
  case (JStr s)
  with assms show ?thesis
    by (auto simp: store_def get_prop_def indexed_def dest: array_index_less
        split: option.splits if_splits)
qed (use assms in \<open>simp_all add: store_def\<close>)

lemma apply_rule_applies:
  assumes "apply_rule rules key templateData = (None, d, lg)"
  shows "rule_applied rules d key"
proof (cases "get_prop templateData ''Parameters''")
  case (Inl e)
  with assms show ?thesis
    by (simp add: apply_rule_def)
next
  case params: (Inr parameters)
  show ?thesis
  proof (cases "get_prop parameters key")
    case (Inl e)
    with assms params show ?thesis
      by (simp add: apply_rule_def)
  next
    case param: (Inr parameter)
    show ?thesis
    proof (cases "parameter = JUndefined")
      case True
      with assms params param show ?thesis
        by (auto simp: apply_rule_def rule_applied_def)
    next
      case defined: False
      from param have nonnull: "parameters \<noteq> JUndefined"
        by (simp add: get_prop_receiver)
      from params nonnull have own_params: "own templateData ''Parameters'' = Some parameters"
        by (auto simp: get_prop_def split: if_splits option.splits)
      then obtain kvs where doc: "templateData = JObj kvs" "map_of kvs ''Parameters'' = Some parameters"
        by (auto dest: own_name_object [where c = "CHR ''P''"])
      from param defined have own_param: "own parameters key = Some parameter"
        by (auto simp: get_prop_def split: if_splits option.splits)
      show ?thesis
      proof (cases "get_prop rules key")
        case (Inl e)
        with assms params param defined show ?thesis
          by (simp add: apply_rule_def)
      next
        case rule: (Inr rule)
        consider (required) "rule = JStr ''required''" | (optional) "rule = JStr ''optional''"
          | (other) "rule \<noteq> JStr ''required''" "rule \<noteq> JStr ''optional''"
          by auto
        then show ?thesis
        proof cases
          case required
          with assms params param defined rule obtain parameter' where
            deleted: "delete_prop parameter ''Default'' = Inr parameter'"
            and d: "d = store templateData ''Parameters'' (store parameters key parameter')"
            by (auto simp: apply_rule_def split: sum.splits)
          have "map_of fields ''Default'' = None"
            if "get_prop (store parameters key parameter') key = Inr (JObj fields)" for fields
          proof -
            from get_prop_store_same [OF own_param that] have "parameter' = JObj fields"
              by simp
            with deleted show ?thesis
              by (cases parameter) (auto simp: delete_prop_def AList.delete_conv')
          qed
          with d doc rule required show ?thesis
            by (auto simp: rule_applied_def store_def get_prop_object AList.map_of_map_entry
                split: sum.splits jsval.splits)
        next
          case optional
          with assms params param defined rule obtain parameter' where
            assigned: "set_prop parameter ''Default'' (JStr []) = Inr parameter'"
            and d: "d = store templateData ''Parameters'' (store parameters key parameter')"
            by (auto simp: apply_rule_def split: sum.splits)
          have "map_of fields ''Default'' = Some (JStr [])"
            if "get_prop (store parameters key parameter') key = Inr (JObj fields)" for fields
          proof -
            from get_prop_store_same [OF own_param that] have "parameter' = JObj fields"
              by simp
            with assigned show ?thesis
              by (cases parameter) (auto simp: set_prop_def AList.update_conv')
          qed
          with d doc rule optional show ?thesis
            by (auto simp: rule_applied_def store_def get_prop_object AList.map_of_map_entry
                split: sum.splits jsval.splits)
        next
          case other
          with rule show ?thesis
            by (auto simp: rule_applied_def split: sum.splits jsval.splits)
        qed
      qed
    qed
  qed
qed


lemma apply_rule_document:
  assumes "apply_rule rules key templateData = (r, d, lg)"
  shows "d = templateData
       \<or> (\<exists>parameters x. get_prop templateData ''Parameters'' = Inr parameters
             \<and> own templateData ''Parameters'' = Some parameters
             \<and> d = store templateData ''Parameters'' (store parameters key x))"
proof -
  have "own templateData ''Parameters'' = Some parameters"
    if "get_prop templateData ''Parameters'' = Inr parameters"
      and "get_prop parameters key = Inr parameter" for parameters parameter
    using that by (auto simp: get_prop_def split: if_splits option.splits)
  with assms show ?thesis
    by (auto simp: apply_rule_def split: sum.splits if_splits)
qed

lemma apply_rule_keeps_other:
  assumes "apply_rule rules key templateData = (r, d, lg)" and "name \<noteq> ''Parameters''"
  shows "get_prop d name = get_prop templateData name"
  using apply_rule_document [OF assms(1)] assms(2) by (auto simp: get_prop_store_other)

lemma apply_rule_keeps_applied:
  assumes "apply_rule rules key templateData = (None, d, lg)"
    and "rule_applied rules templateData key'"
  shows "rule_applied rules d key'"
proof (cases "key' = key")
  case True
  with assms(1) show ?thesis
    by (simp add: apply_rule_applies)
next
  case False
  from apply_rule_document [OF assms(1)] show ?thesis
  proof
    assume "d = templateData"
    with assms(2) show ?thesis
      by simp
  next
    assume "\<exists>parameters x. get_prop templateData ''Parameters'' = Inr parameters
      \<and> own templateData ''Parameters'' = Some parameters
      \<and> d = store templateData ''Parameters'' (store parameters key x)"
    then obtain parameters x where
      params: "get_prop templateData ''Parameters'' = Inr parameters"
      and owned: "own templateData ''Parameters'' = Some parameters"
      and d: "d = store templateData ''Parameters'' (store parameters key x)"
      by auto
    from owned obtain kvs where "templateData = JObj kvs" "map_of kvs ''Parameters'' = Some parameters"
      by (auto dest: own_name_object [where c = "CHR ''P''"])
    with d have "get_prop d ''Parameters'' = Inr (store parameters key x)"
      by (simp add: store_def get_prop_object AList.map_of_map_entry)
    moreover from False have "get_prop (store parameters key x) key' = get_prop parameters key'"
      by (rule get_prop_store_other)
    ultimately show ?thesis
      using assms(2) params by (simp add: rule_applied_def)
  qed
qed

lemma apply_rules_keep_applied:
  assumes "apply_rules rules keys templateData = (None, d, lg)"
    and "rule_applied rules templateData key"
  shows "rule_applied rules d key"
  using assms
proof (induction keys arbitrary: templateData lg)
  case Nil
  then show ?case by simp
next
  case (Cons k keys)
  obtain r1 d1 lg1 where step: "apply_rule rules k templateData = (r1, d1, lg1)"
    by (cases "apply_rule rules k templateData") auto
  obtain r2 d2 lg2 where rest: "apply_rules rules keys d1 = (r2, d2, lg2)"
    by (cases "apply_rules rules keys d1") auto
  from Cons.prems(1) step rest have "r1 = None" "r2 = None" "d2 = d"
    by (auto split: option.splits)
  with step rest Cons.prems(2) Cons.IH [of d1 lg2] show ?case
    by (auto dest: apply_rule_keeps_applied)
qed

lemma apply_rules_apply:
  assumes "apply_rules rules keys templateData = (None, d, lg)"
  shows "list_all (rule_applied rules d) keys"
  using assms
proof (induction keys arbitrary: templateData lg)
  case Nil
  then show ?case by simp
next
  case (Cons k keys)
  obtain r1 d1 lg1 where step: "apply_rule rules k templateData = (r1, d1, lg1)"
    by (cases "apply_rule rules k templateData") auto
  obtain r2 d2 lg2 where rest: "apply_rules rules keys d1 = (r2, d2, lg2)"
    by (cases "apply_rules rules keys d1") auto
  from Cons.prems step rest have none: "r1 = None" "r2 = None" "d2 = d"
    by (auto split: option.splits)
  with step have "rule_applied rules d1 k"
    by (simp add: apply_rule_applies)
  with rest none have "rule_applied rules d k"
    by (auto dest: apply_rules_keep_applied)
  moreover from rest none Cons.IH [of d1 lg2] have "list_all (rule_applied rules d) keys"
    by simp
  ultimately show ?case
    by simp
qed

lemma apply_rules_keep_other:
  assumes "apply_rules rules keys templateData = (r, d, lg)" and "name \<noteq> ''Parameters''"
  shows "get_prop d name = get_prop templateData name"
  using assms
proof (induction keys arbitrary: templateData r d lg)
  case Nil
  then show ?case by simp
next
  case (Cons k keys)
  obtain r1 d1 lg1 where step: "apply_rule rules k templateData = (r1, d1, lg1)"
    by (cases "apply_rule rules k templateData") auto
  obtain r2 d2 lg2 where rest: "apply_rules rules keys d1 = (r2, d2, lg2)"
    by (cases "apply_rules rules keys d1") auto
  from apply_rule_keeps_other [OF step Cons.prems(2)]
  have one: "get_prop d1 name = get_prop templateData name" .
  show ?case
  proof (cases r1)
    case None
    with Cons.prems(1) step rest have "d = d2"
      by simp
    with Cons.IH [OF rest Cons.prems(2)] one show ?thesis
      by simp
  next
    case (Some e)
    with Cons.prems(1) step have "d = d1"
      by simp
    with one show ?thesis
      by simp
  qed
qed

lemma remove_deployment_bucket_removes:
  assumes "remove_deployment_bucket templateData = (None, d)"
  shows "bucket_entry_absent d"
proof -
  from assms obtain resources resources' where
    res: "get_prop templateData ''Resources'' = Inr resources"
    and deleted: "delete_prop resources ''ServerlessDeploymentBucket'' = Inr resources'"
    and d: "d = store templateData ''Resources'' resources'"
    by (auto simp: remove_deployment_bucket_def split: sum.splits)
  from deleted have "resources \<noteq> JUndefined"
    by (auto simp: delete_prop_def)
  with res have "own templateData ''Resources'' = Some resources"
    by (auto simp: get_prop_def split: if_splits option.splits)
  then obtain kvs where "templateData = JObj kvs" "map_of kvs ''Resources'' = Some resources"
    by (auto dest: own_name_object [where c = "CHR ''R''"])
  with d have after: "get_prop d ''Resources'' = Inr resources'"
    by (simp add: store_def get_prop_object AList.map_of_map_entry)
  have "indexed xs ''ServerlessDeploymentBucket'' = None" for xs
    by (rule indexed_name [where c = "CHR ''S''"]) simp_all
  with deleted have "own resources' ''ServerlessDeploymentBucket'' = None"
    by (cases resources) (auto simp: delete_prop_def AList.delete_conv')
  with after show ?thesis
    by (simp add: bucket_entry_absent_def)
qed

lemma rewrite_code_location_result:
  assumes "rewrite_code_location p r = (None, r')"
  shows "code_location_rewritten p r' \<and> get_prop r' ''Type'' = get_prop r ''Type''"
proof (cases "points_at_deployment_bucket r")
  case (Inl e)
  with assms show ?thesis
    by (simp add: rewrite_code_location_def)
next
  case (Inr matches)
  show ?thesis
  proof (cases matches)
    case False
    with Inr assms show ?thesis
      by (auto simp: rewrite_code_location_def code_location_rewritten_def)
  next
    case True
    with Inr rewrite_code_location_matching [of r p] assms obtain kvs kvs' properties' where
      "r = JObj kvs" "r' = JObj kvs'"
      "map_of kvs' ''Properties'' = Some (JObj properties')"
      "map_of properties' ''S3Bucket'' = Some (destBucket p)"
      "map_of properties' ''S3Key'' = Some (destCodeKey p)"
      "map_of kvs' ''Type'' = map_of kvs ''Type''"
      by auto
    then show ?thesis
      by (auto simp: code_location_rewritten_def get_prop_object split: sum.splits)
  qed
qed

lemma forEach_rewrite_result:
  assumes "forEach_rewrite p (zip kept rs) = (None, rs')" and "filter_functions rs = Inr kept"
  shows "filter_functions rs' = Inr kept
       \<and> list_all (\<lambda>(keep, resource). \<not> keep \<or> code_location_rewritten p resource) (zip kept rs')"
  using assms
proof (induction rs arbitrary: kept rs')
  case Nil
  then show ?case by auto
next
  case (Cons r rs)
  from Cons.prems(2) obtain type kept0 where
    type: "get_prop r ''Type'' = Inr type"
    and rest: "filter_functions rs = Inr kept0"
    and kept: "kept = (type = JStr ''AWS::Lambda::Function'') # kept0"
    by (auto simp: and_then_eq_Inr)
  obtain e rs0 where loop: "forEach_rewrite p (zip kept0 rs) = (e, rs0)"
    by (cases "forEach_rewrite p (zip kept0 rs)") auto
  show ?case
  proof (cases "type = JStr ''AWS::Lambda::Function''")
    case False
    with Cons.prems(1) kept loop have "e = None" "rs' = r # rs0"
      by auto
    with Cons.IH [of kept0 rs0] loop rest type kept False show ?thesis
      by simp
  next
    case True
    obtain e1 r1 where one: "rewrite_code_location p r = (e1, r1)"
      by (cases "rewrite_code_location p r") auto
    with Cons.prems(1) kept loop True have "e1 = None" "e = None" "rs' = r1 # rs0"
      by (auto split: option.splits)
    with Cons.IH [of kept0 rs0] loop rest type kept True one
      rewrite_code_location_result [of p r r1]
    show ?thesis
      by simp
  qed
qed

lemma rewrite_functions_result:
  assumes "rewrite_functions p d = (None, d')"
  shows "functions_rewritten p d' \<and> bucket_entry_absent d'
       \<and> (\<forall>name. name \<noteq> ''Resources'' \<longrightarrow> get_prop d' name = get_prop d name)"
proof -
  from assms obtain rs kept rs' where
    res: "get_prop d ''Resources'' = Inr (JArr rs)"
    and kept: "filter_functions rs = Inr kept"
    and loop: "forEach_rewrite p (zip kept rs) = (None, rs')"
    and d': "d' = store d ''Resources'' (JArr rs')"
    by (auto simp: rewrite_functions_def split: sum.splits jsval.splits prod.splits)
  from res have "own d ''Resources'' = Some (JArr rs)"
    by (auto simp: get_prop_def split: if_splits option.splits)
  then obtain kvs where "d = JObj kvs" "map_of kvs ''Resources'' = Some (JArr rs)"
    by (auto dest: own_name_object [where c = "CHR ''R''"])
  with d' have after: "get_prop d' ''Resources'' = Inr (JArr rs')"
    by (simp add: store_def get_prop_object AList.map_of_map_entry)
  have "indexed rs' ''ServerlessDeploymentBucket'' = None"
    by (rule indexed_name [where c = "CHR ''S''"]) simp_all
  with after have "bucket_entry_absent d'"
    by (simp add: bucket_entry_absent_def)
  moreover from forEach_rewrite_result [OF loop kept] after have "functions_rewritten p d'"
    by (simp add: functions_rewritten_def)
  moreover from d' have "get_prop d' name = get_prop d name" if "name \<noteq> ''Resources''" for name
    using that by (simp add: get_prop_store_other)
  ultimately show ?thesis
    by simp
qed

lemma rule_applied_parameters:
  assumes "get_prop d' ''Parameters'' = get_prop d ''Parameters''"
  shows "rule_applied rules d' key = rule_applied rules d key"
  using assms by (simp add: rule_applied_def)

lemma elaborateTemplate_returns_elaborated:
  assumes "raised (elaborateTemplate p templateData) = None"
  shows "already_elaborated p (document (elaborateTemplate p templateData))"
proof -
  from assms obtain d1 where removed: "remove_deployment_bucket templateData = (None, d1)"
    by (cases "remove_deployment_bucket templateData")
      (auto simp: elaborateTemplate_def split: option.splits)
  with assms obtain rules where rules: "get_prop (shareConfig p) ''parameters'' = Inr rules"
    by (auto simp: elaborateTemplate_def split: sum.splits)
  obtain r2 d2 lg where loop: "apply_rules rules (for_in_keys rules) d1 = (r2, d2, lg)"
    by (cases "apply_rules rules (for_in_keys rules) d1") auto
  with assms removed rules have r2: "r2 = None"
    by (auto simp: elaborateTemplate_def split: option.splits)
  obtain r3 d3 where last: "rewrite_functions p d2 = (r3, d3)"
    by (cases "rewrite_functions p d2") auto
  with assms removed rules loop r2 have r3: "r3 = None"
    and doc: "document (elaborateTemplate p templateData) = d3"
    by (simp_all add: elaborateTemplate_def)
  from rewrite_functions_result [of p d2 d3] last r3 have
    rewritten: "functions_rewritten p d3" and absent: "bucket_entry_absent d3"
    and same: "get_prop d3 ''Parameters'' = get_prop d2 ''Parameters''"
    by simp_all
  from loop r2 have "list_all (rule_applied rules d2) (for_in_keys rules)"
    by (simp add: apply_rules_apply)
  moreover have "rule_applied rules d3 = rule_applied rules d2"
    using rule_applied_parameters [OF same] by (rule ext)
  ultimately have "list_all (rule_applied rules d3) (for_in_keys rules)"
    by simp
  with rules have "rules_applied p d3"
    by (simp add: rules_applied_def)
  with rewritten absent doc show ?thesis
    by (simp add: already_elaborated_def)
qed

subsection \<open>Example runs\<close>

lemmas elaborate_defs = elaborateTemplate_def remove_deployment_bucket_def apply_rule_def
  rewrite_functions_def rewrite_code_location_def points_at_deployment_bucket_def
  get_prop_def delete_prop_def set_prop_def store_def for_in_keys_def sharing_def
  constructed_def function_resource_def rewritten_function_resource_def

text \<open>
  When \<^verbatim>\<open>Resources\<close> is an array, the function returns: the \<^verbatim>\<open>required\<close> parameter has lost
  its \<^verbatim>\<open>Default\<close>, the \<^verbatim>\<open>optional\<close> one has the \<^verbatim>\<open>Default\<close> \<^verbatim>\<open>''\<close>, the rule without a parameter
  is logged, and the function's code location is the destination's.
\<close>

lemma elaborateTemplate_resource_array:
  "elaborateTemplate
     (sharing [(''P1'', JStr ''required''), (''P2'', JStr ''optional''), (''P3'', JStr ''required'')])
     (JObj [(''Resources'', JArr [JObj [(''Type'', JStr ''AWS::S3::Bucket'')], function_resource]),
            (''Parameters'', JObj [(''P1'', JObj [(''Default'', JStr ''x'')]),
                                   (''P2'', JObj [(''Type'', JStr ''String'')])])])
   = \<lparr> raised = None,
       document =
         JObj [(''Resources'',
                JArr [JObj [(''Type'', JStr ''AWS::S3::Bucket'')], rewritten_function_resource]),
               (''Parameters'', JObj [(''P1'', JObj []),
                                      (''P2'', JObj [(''Type'', JStr ''String''),
                                                     (''Default'', JStr [])])])],
       logged = [''Rule P3 cannot be applied, parameters not found''] \<rparr>"
  by (simp add: elaborate_defs)

subsection \<open>Parameter rules\<close>

text \<open>
  Claim C1 says that, for every template document and every rule mapping, a rule whose
  parameter is absent is logged and leaves the document unchanged (and that a
  \<^verbatim>\<open>required\<close> or \<^verbatim>\<open>optional\<close> rule whose parameter exists removes or empties its
  \<^verbatim>\<open>Default\<close>). A template without a \<^verbatim>\<open>Parameters\<close> section has no parameter of any name, yet
  on it the first round of the loop raises a TypeError at line 184 and logs nothing; the
  function returns no document and \<^verbatim>\<open>template\<close> publishes none.
\<close>

theorem elaborateTemplate_without_parameters_section:
  "apply_rules (JObj [(''P1'', JStr ''required'')]) [''P1'']
     (JObj [(''Resources'', JObj [(''Fn'', function_resource)])])
   = (Some TypeError, JObj [(''Resources'', JObj [(''Fn'', function_resource)])], [])
   \<and> elaborateTemplate (sharing [(''P1'', JStr ''required'')])
       (JObj [(''Resources'', JObj [(''Fn'', function_resource)])])
     = \<lparr> raised = Some TypeError,
         document = JObj [(''Resources'', JObj [(''Fn'', function_resource)])],
         logged = [] \<rparr>
   \<and> template (sharing [(''P1'', JStr ''required'')])
       (Inr (JObj [(''Resources'', JObj [(''Fn'', function_resource)])]))
     = (Some TypeError, [], [])"
  by (simp add: template_def elaborate_defs)

subsection \<open>Code locations\<close>

text \<open>
  Claim C2 says that every function resource whose bucket reference points at the
  deployment bucket gets the destination bucket and the destination code key. In a
  template, \<^verbatim>\<open>Resources\<close> maps names to resources; it is an object, which has no
  \<^verbatim>\<open>filter\<close> method, so line 198 raises a TypeError (\<open>elaborateTemplate_mapping\<close>). On the
  template below the function resource still points at the deployment bucket when the
  call ends, and \<^verbatim>\<open>template\<close> publishes nothing.
\<close>

theorem elaborateTemplate_resource_mapping_not_rewritten:
  "elaborateTemplate (sharing [])
     (JObj [(''Resources'',
             JObj [(''ServerlessDeploymentBucket'', JObj [(''Type'', JStr ''AWS::S3::Bucket'')]),
                   (''Fn'', function_resource)]),
            (''Parameters'', JObj [])])
   = \<lparr> raised = Some TypeError,
       document = JObj [(''Resources'', JObj [(''Fn'', function_resource)]),
                        (''Parameters'', JObj [])],
       logged = [] \<rparr>
   \<and> template (sharing [])
       (Inr (JObj [(''Resources'',
                    JObj [(''ServerlessDeploymentBucket'', JObj [(''Type'', JStr ''AWS::S3::Bucket'')]),
                          (''Fn'', function_resource)]),
                   (''Parameters'', JObj [])]))
     = (Some TypeError, [], [])"
  by (simp add: template_def elaborate_defs)

subsection \<open>The deployment bucket's entry\<close>

text \<open>
  On a template whose \<^verbatim>\<open>Resources\<close> is a mapping, line 181 removes the entry
  \<^verbatim>\<open>ServerlessDeploymentBucket\<close> in place and keeps every other entry, with its value and in
  its place; the call then raises the TypeError of line 198 and returns nothing.
\<close>

lemma elaborateTemplate_mapping_entries:
  assumes "map_of kvs ''Resources'' = Some (JObj resources)"
  shows "raised (elaborateTemplate p (JObj kvs)) = Some TypeError
       \<and> get_prop (document (elaborateTemplate p (JObj kvs))) ''Resources''
         = Inr (JObj (filter (\<lambda>entry. fst entry \<noteq> ''ServerlessDeploymentBucket'') resources))"
proof -
  have "AList.delete ''ServerlessDeploymentBucket'' resources
        = filter (\<lambda>entry. fst entry \<noteq> ''ServerlessDeploymentBucket'') resources"
    by (induction resources) auto
  with elaborateTemplate_mapping [OF assms, of p] show ?thesis
    by (auto simp: get_prop_object)
qed

text \<open>
  Claim C3 says that, on a template whose \<^verbatim>\<open>Resources\<close> mapping has the entry
  \<^verbatim>\<open>ServerlessDeploymentBucket\<close>, elaboration removes exactly that entry, that is, yields
  the document without it. On the template below, with the entries
  \<^verbatim>\<open>ServerlessDeploymentBucket\<close>, \<^verbatim>\<open>Fn\<close> and \<^verbatim>\<open>Table\<close>, the call raises the TypeError of line
  198 and returns no document, and \<^verbatim>\<open>template\<close> publishes none: the entry is gone only from
  the object the call mutated and then abandoned.
\<close>

theorem elaborateTemplate_removes_entry_then_raises:
  "elaborateTemplate (sharing [])
     (JObj [(''Resources'',
             JObj [(''ServerlessDeploymentBucket'', JObj [(''Type'', JStr ''AWS::S3::Bucket'')]),
                   (''Fn'', function_resource),
                   (''Table'', JObj [(''Type'', JStr ''AWS::DynamoDB::Table'')])]),
            (''Parameters'', JObj [])])
   = \<lparr> raised = Some TypeError,
       document =
         JObj [(''Resources'',
                JObj [(''Fn'', function_resource),
                      (''Table'', JObj [(''Type'', JStr ''AWS::DynamoDB::Table'')])]),
               (''Parameters'', JObj [])],
       logged = [] \<rparr>
   \<and> template (sharing [])
       (Inr (JObj [(''Resources'',
                    JObj [(''ServerlessDeploymentBucket'', JObj [(''Type'', JStr ''AWS::S3::Bucket'')]),
                          (''Fn'', function_resource),
                          (''Table'', JObj [(''Type'', JStr ''AWS::DynamoDB::Table'')])]),
                   (''Parameters'', JObj [])]))
     = (Some TypeError, [], [])"
  by (simp add: template_def elaborate_defs)

subsection \<open>Errors\<close>

text \<open>
  Claim C4 says that \<^verbatim>\<open>elaborateTemplate\<close> raises no error on a document that has
  \<^verbatim>\<open>Resources\<close>, whatever the rules. On the template with an empty \<^verbatim>\<open>Resources\<close> mapping, an
  empty \<^verbatim>\<open>Parameters\<close> mapping and no rule, it raises the TypeError of line 198, and
  \<^verbatim>\<open>template\<close> ends with that error.
\<close>

theorem elaborateTemplate_raises_on_resource_mapping:
  "elaborateTemplate (sharing []) (JObj [(''Resources'', JObj []), (''Parameters'', JObj [])])
   = \<lparr> raised = Some TypeError,
       document = JObj [(''Resources'', JObj []), (''Parameters'', JObj [])],
       logged = [] \<rparr>
   \<and> template (sharing []) (Inr (JObj [(''Resources'', JObj []), (''Parameters'', JObj [])]))
     = (Some TypeError, [], [])"
  by (simp add: template_def elaborate_defs)

subsection \<open>Idempotence\<close>

text \<open>
  Claim C8: on a document that is already elaborated (the deployment bucket's entry
  absent, the parameter rules applied, the functions' code locations rewritten),
  \<^verbatim>\<open>elaborateTemplate\<close> leaves the document as it is; in particular the removal of line 181
  changes nothing. Every document a call returns is such a document
  (\<open>elaborateTemplate_returns_elaborated\<close>).
\<close>

theorem elaborateTemplate_idempotent:
  assumes "already_elaborated p templateData"
  shows "document (elaborateTemplate p templateData) = templateData
       \<and> snd (remove_deployment_bucket templateData) = templateData"
proof -
  from assms have absent: "bucket_entry_absent templateData"
    and rules: "rules_applied p templateData"
    and rewritten: "functions_rewritten p templateData"
    by (simp_all add: already_elaborated_def)
  have removed: "snd (remove_deployment_bucket templateData) = templateData"
    using absent by (rule remove_deployment_bucket_absent)
  have "document (elaborateTemplate p templateData) = templateData"
  proof (cases "get_prop (shareConfig p) ''parameters''")
    case (Inl e)
    with removed show ?thesis
      by (auto simp: elaborateTemplate_def split: prod.splits option.splits)
  next
    case (Inr rs)
    with rules have "fst (snd (apply_rules rs (for_in_keys rs) templateData)) = templateData"
      by (simp add: rules_applied_def apply_rules_applied)
    with removed Inr rewrite_functions_rewritten [OF rewritten] show ?thesis
      by (auto simp: elaborateTemplate_def split: prod.splits option.splits)
  qed
  with removed show ?thesis
    by simp
qed

text \<open>
  The witness is the document that \<open>elaborateTemplate_resource_array\<close> ends with.
\<close>

theorem elaborateTemplate_idempotent_witness:
  "already_elaborated
     (sharing [(''P1'', JStr ''required''), (''P2'', JStr ''optional''), (''P3'', JStr ''required'')])
     (JObj [(''Resources'',
             JArr [JObj [(''Type'', JStr ''AWS::S3::Bucket'')], rewritten_function_resource]),
            (''Parameters'', JObj [(''P1'', JObj []),
                                   (''P2'', JObj [(''Type'', JStr ''String''),
                                                  (''Default'', JStr [])])])])
   \<and> document (elaborateTemplate
        (sharing [(''P1'', JStr ''required''), (''P2'', JStr ''optional''), (''P3'', JStr ''required'')])
        (JObj [(''Resources'',
                JArr [JObj [(''Type'', JStr ''AWS::S3::Bucket'')], rewritten_function_resource]),
               (''Parameters'', JObj [(''P1'', JObj []),
                                      (''P2'', JObj [(''Type'', JStr ''String''),
                                                     (''Default'', JStr [])])])]))
     = JObj [(''Resources'',
              JArr [JObj [(''Type'', JStr ''AWS::S3::Bucket'')], rewritten_function_resource]),
             (''Parameters'', JObj [(''P1'', JObj []),
                                    (''P2'', JObj [(''Type'', JStr ''String''),
                                                   (''Default'', JStr [])])])]"
proof -
  have elaborated: "already_elaborated
     (sharing [(''P1'', JStr ''required''), (''P2'', JStr ''optional''), (''P3'', JStr ''required'')])
     (JObj [(''Resources'',
             JArr [JObj [(''Type'', JStr ''AWS::S3::Bucket'')], rewritten_function_resource]),
            (''Parameters'', JObj [(''P1'', JObj []),
                                   (''P2'', JObj [(''Type'', JStr ''String''),
                                                  (''Default'', JStr [])])])])"
    by (simp add: already_elaborated_def bucket_entry_absent_def rules_applied_def
        rule_applied_def functions_rewritten_def code_location_rewritten_def elaborate_defs
        indexed_def array_index_def show_nat.simps [of 0] show_nat.simps [of "Suc 0"]
        digit_def)
  from elaborateTemplate_idempotent [OF elaborated] elaborated show ?thesis
    by simp
qed

end
